theory Spec2Isabelle
  imports Complex_Main
begin

section \<open>Data model\<close>

text \<open>
  The models \<^verbatim>\<open>Despesa.js\<close>, \<^verbatim>\<open>Receita.js\<close> and \<^verbatim>\<open>Orcamento.js\<close> keep expenses, incomes,
  account balances, credit-card limits and monthly budget rows in a relational store.
  Row identifiers (UUIDs in the store) are natural numbers here. Monetary amounts are the
  decimal values of the store, modelled as exact rationals: \<^verbatim>\<open>parseFloat\<close> followed by
  \<^verbatim>\<open>+\<close>/\<^verbatim>\<open>-\<close> is exact arithmetic in this model; binary rounding is outside of it.
\<close>

datatype status = Pendente | Confirmada | Cancelada

datatype operation = Add | Subtract

datatype tipo = TipoReceita | TipoDespesa

text \<open>A calendar date as the text \<^verbatim>\<open>YYYY-MM-DD\<close> that the code writes and reads; months are 1..12.\<close>

record date =
  dt_ano :: int
  dt_mes :: int
  dt_dia :: int

record account =
  acc_saldo_atual :: rat

record cartao =
  limite_disponivel :: rat
  limite_total :: rat

record despesa =
  d_id :: nat
  d_user_id :: nat
  d_account_id :: nat
  d_valor :: rat
  data_despesa :: date
  d_status :: status
  d_ativo :: bool
  eh_pagamento_fatura :: bool
  cartao_origem_id :: "nat option"

record receita =
  r_id :: nat
  r_user_id :: nat
  r_account_id :: nat
  r_valor :: rat
  data_receita :: date
  r_status :: status
  r_ativo :: bool

record orcamento =
  receita_total :: rat
  despesa_total :: rat
  saldo_atual :: rat
  meta_economia :: rat

text \<open>
  The store. Accounts and credit-card details are keyed by the account id; the budget
  table is keyed by (user, month, year), the conflict target of the upsert in
  \<^verbatim>\<open>Orcamento.recalcular\<close>. Expenses and incomes are lists of rows, so that queries can
  filter and sum them.
\<close>

record db =
  gzen_accounts :: "nat \<rightharpoonup> account"
  gzen_cartao_credito :: "nat \<rightharpoonup> cartao"
  gzen_despesas :: "despesa list"
  gzen_receitas :: "receita list"
  gzen_orcamento :: "(nat \<times> int \<times> int) \<rightharpoonup> orcamento"

text \<open>The payload of \<^verbatim>\<open>create\<close> (after validation) and the partial payload of \<^verbatim>\<open>update\<close>.\<close>

record despesa_data =
  dd_account_id :: nat
  dd_valor :: rat
  dd_data_despesa :: date
  dd_status :: status
  dd_eh_pagamento_fatura :: bool
  dd_cartao_origem_id :: "nat option"

record despesa_update =
  du_account_id :: "nat option"
  du_valor :: "rat option"
  du_data_despesa :: "date option"
  du_status :: "status option"
  du_eh_pagamento_fatura :: "bool option"
  du_cartao_origem_id :: "nat option"

record receita_data =
  rd_account_id :: nat
  rd_valor :: rat
  rd_data_receita :: date
  rd_status :: status

record receita_update =
  ru_account_id :: "nat option"
  ru_valor :: "rat option"
  ru_data_receita :: "date option"
  ru_status :: "status option"

section \<open>The JavaScript \<^verbatim>\<open>Date\<close> operations the code uses\<close>

text \<open>
  Time values are milliseconds since 1970-01-01T00:00Z; the functions below are the
  abstract operations of the language standard, on day numbers. \<open>YearFromDay\<close> is the
  largest year whose first day is not after the given day, computed from an estimate
  that is off by at most one.
\<close>

definition msPerDay :: int where
  "msPerDay = 86400000"

definition Day :: "int \<Rightarrow> int" where
  "Day t = t div msPerDay"

definition DaysInYear :: "int \<Rightarrow> int" where
  "DaysInYear y =
     (if y mod 4 \<noteq> 0 then 365 else if y mod 100 \<noteq> 0 then 366
      else if y mod 400 \<noteq> 0 then 365 else 366)"

definition DayFromYear :: "int \<Rightarrow> int" where
  "DayFromYear y =
     365 * (y - 1970) + (y - 1969) div 4 - (y - 1901) div 100 + (y - 1601) div 400"

definition YearFromDay :: "int \<Rightarrow> int" where
  "YearFromDay d =
     (let c = 1970 + (400 * d) div 146097 in
      if DayFromYear (c + 1) \<le> d then c + 1
      else if DayFromYear c \<le> d then c
      else c - 1)"

definition InLeapYear :: "int \<Rightarrow> int" where
  "InLeapYear y = (if DaysInYear y = 366 then 1 else 0)"

definition DayWithinYear :: "int \<Rightarrow> int" where
  "DayWithinYear d = d - DayFromYear (YearFromDay d)"

text \<open>\<open>MonthStart m l\<close>: the day within the year on which month \<open>m\<close> (0..11) starts.\<close>

definition MonthStart :: "int \<Rightarrow> int \<Rightarrow> int" where
  "MonthStart m l =
     (if m = 0 then 0 else if m = 1 then 31 else if m = 2 then 59 + l
      else if m = 3 then 90 + l else if m = 4 then 120 + l else if m = 5 then 151 + l
      else if m = 6 then 181 + l else if m = 7 then 212 + l else if m = 8 then 243 + l
      else if m = 9 then 273 + l else if m = 10 then 304 + l else 334 + l)"

definition MonthFromDay :: "int \<Rightarrow> int" where
  "MonthFromDay d =
     (let w = DayWithinYear d; l = InLeapYear (YearFromDay d) in
      if w < 31 then 0 else if w < 59 + l then 1 else if w < 90 + l then 2
      else if w < 120 + l then 3 else if w < 151 + l then 4 else if w < 181 + l then 5
      else if w < 212 + l then 6 else if w < 243 + l then 7 else if w < 273 + l then 8
      else if w < 304 + l then 9 else if w < 334 + l then 10 else 11)"

definition DateFromDay :: "int \<Rightarrow> int" where
  "DateFromDay d =
     DayWithinYear d - MonthStart (MonthFromDay d) (InLeapYear (YearFromDay d)) + 1"

text \<open>\<open>MakeDay year month date\<close>, with \<open>month\<close> counted from 0 and carried into the year.\<close>

definition MakeDay :: "int \<Rightarrow> int \<Rightarrow> int \<Rightarrow> int" where
  "MakeDay y m dt =
     (let ym = y + m div 12; mn = m mod 12
      in DayFromYear ym + MonthStart mn (InLeapYear ym) + dt - 1)"

text \<open>\<^verbatim>\<open>new Date('YYYY-MM-DD')\<close>: a date-only text is read as midnight UTC.\<close>

definition parse_date_only :: "date \<Rightarrow> int" where
  "parse_date_only dt = MakeDay (dt_ano dt) (dt_mes dt - 1) (dt_dia dt) * msPerDay"

text \<open>\<^verbatim>\<open>new Date(s + 'T00:00:00-03:00')\<close>: midnight at UTC-3, that is 03:00 UTC.\<close>

definition parse_sao_paulo :: "date \<Rightarrow> int" where
  "parse_sao_paulo dt = MakeDay (dt_ano dt) (dt_mes dt - 1) (dt_dia dt) * msPerDay + 3 * 3600000"

text \<open>\<^verbatim>\<open>t.toISOString().split('T')[0]\<close>: the UTC calendar date of a time value.\<close>

definition toISOString_date :: "int \<Rightarrow> date" where
  "toISOString_date t =
     \<lparr>dt_ano = YearFromDay (Day t), dt_mes = MonthFromDay (Day t) + 1,
       dt_dia = DateFromDay (Day t)\<rparr>"

text \<open>
  \<^verbatim>\<open>getMonth()\<close> and \<^verbatim>\<open>getFullYear()\<close> read the local time \<open>t + tza\<close>, where \<open>tza\<close> is the
  offset of the server's time zone in milliseconds (\<open>-10800000\<close> for UTC-3).
\<close>

definition getMonth :: "int \<Rightarrow> int \<Rightarrow> int" where
  "getMonth tza t = MonthFromDay (Day (t + tza))"

definition getFullYear :: "int \<Rightarrow> int \<Rightarrow> int" where
  "getFullYear tza t = YearFromDay (Day (t + tza))"

text \<open>
  \<^verbatim>\<open>new Date(ano, mes, 0).getDate()\<close>: built from local-time fields and read in local
  time, so the offset cancels. The constructor maps the years 0..99 to 1900..1999.
\<close>

definition ultimoDia :: "int \<Rightarrow> int \<Rightarrow> int" where
  "ultimoDia ano mes =
     DateFromDay (MakeDay (if 0 \<le> ano \<and> ano \<le> 99 then 1900 + ano else ano) mes 0)"

section \<open>Storage queries\<close>

text \<open>\<^verbatim>\<open>.single()\<close>: the row when the query matches exactly one, no data otherwise.\<close>

definition single :: "'a list \<Rightarrow> 'a option" where
  "single rows = (case rows of [r] \<Rightarrow> Some r | _ \<Rightarrow> None)"

text \<open>The key the store gives to an inserted row: one that no row of the table has.\<close>

definition novo_id :: "nat list \<Rightarrow> nat" where
  "novo_id ids = Suc (fold max ids 0)"

text \<open>\<^verbatim>\<open>a || b\<close> for a number \<open>a\<close> that may be missing: \<open>b\<close> when \<open>a\<close> is undefined or zero.\<close>

definition js_or :: "rat option \<Rightarrow> rat \<Rightarrow> rat" where
  "js_or a b = (case a of None \<Rightarrow> b | Some v \<Rightarrow> if v = 0 then b else v)"

text \<open>The order of the store on dates, used by \<^verbatim>\<open>.gte\<close> and \<^verbatim>\<open>.lte\<close>.\<close>

definition date_le :: "date \<Rightarrow> date \<Rightarrow> bool" where
  "date_le a b =
     (dt_ano a < dt_ano b \<or>
      (dt_ano a = dt_ano b \<and>
        (dt_mes a < dt_mes b \<or> (dt_mes a = dt_mes b \<and> dt_dia a \<le> dt_dia b))))"

section \<open>Balance and budget side effects (shared by \<^verbatim>\<open>Despesa\<close> and \<^verbatim>\<open>Receita\<close>)\<close>

text \<open>
  \<^verbatim>\<open>updateAccountBalance(accountId, valor, operation)\<close>, the same body in both classes:
  read the account, and only if it was found write \<open>saldo \<plusminus> valor\<close> back.
\<close>

definition updateAccountBalance :: "nat \<Rightarrow> rat \<Rightarrow> operation \<Rightarrow> db \<Rightarrow> db" where
  "updateAccountBalance accountId valor operation s =
     (case gzen_accounts s accountId of
        None \<Rightarrow> s
      | Some account \<Rightarrow>
          (let novoSaldo =
                 (if operation = Add then acc_saldo_atual account + valor
                  else acc_saldo_atual account - valor)
           in s\<lparr>gzen_accounts :=
                  (gzen_accounts s)(accountId \<mapsto> account\<lparr>acc_saldo_atual := novoSaldo\<rparr>)\<rparr>))"

text \<open>The period of a transaction date as \<^verbatim>\<open>updateOrcamento\<close> derives it: (mes, ano).\<close>

definition periodo :: "int \<Rightarrow> date \<Rightarrow> int \<times> int" where
  "periodo tza data =
     (let dataObj = parse_date_only data
      in (getMonth tza dataObj + 1, getFullYear tza dataObj))"

text \<open>
  \<^verbatim>\<open>updateOrcamento(userId, data, valor, tipo, operation)\<close>, the same body in both
  classes. A missing row is created from \<open>valor\<close> and \<open>tipo\<close> alone, and the function
  returns; an existing row gets one total changed and \<open>saldo_atual\<close> recomputed from
  \<^verbatim>\<open>updates.x || orcamento.x\<close>.
\<close>

definition updateOrcamento ::
  "int \<Rightarrow> nat \<Rightarrow> date \<Rightarrow> rat \<Rightarrow> tipo \<Rightarrow> operation \<Rightarrow> db \<Rightarrow> db" where
  "updateOrcamento tza userId data valor tp operation s =
     (let (mes, ano) = periodo tza data
      in case gzen_orcamento s (userId, mes, ano) of
           None \<Rightarrow>
             s\<lparr>gzen_orcamento := (gzen_orcamento s)((userId, mes, ano) \<mapsto>
                 \<lparr>receita_total = (if tp = TipoReceita then valor else 0),
                  despesa_total = (if tp = TipoDespesa then valor else 0),
                  saldo_atual = (if tp = TipoReceita then valor else - valor),
                  meta_economia = 0\<rparr>)\<rparr>
         | Some orc \<Rightarrow>
             (let multiplicador = (if operation = Add then 1 else - 1);
                  valorAtualizado = valor * multiplicador;
                  upd_receita =
                    (if tp = TipoReceita then Some (receita_total orc + valorAtualizado)
                     else None);
                  upd_despesa =
                    (if tp = TipoReceita then None
                     else Some (despesa_total orc + valorAtualizado));
                  novaReceita = js_or upd_receita (receita_total orc);
                  novaDespesa = js_or upd_despesa (despesa_total orc);
                  orc1 = (case upd_receita of None \<Rightarrow> orc
                          | Some v \<Rightarrow> orc\<lparr>receita_total := v\<rparr>);
                  orc2 = (case upd_despesa of None \<Rightarrow> orc1
                          | Some v \<Rightarrow> orc1\<lparr>despesa_total := v\<rparr>)
              in s\<lparr>gzen_orcamento := (gzen_orcamento s)((userId, mes, ano) \<mapsto>
                     orc2\<lparr>saldo_atual := novaReceita - novaDespesa\<rparr>)\<rparr>))"

section \<open>\<^verbatim>\<open>Despesa\<close>\<close>

text \<open>
  \<^verbatim>\<open>processarPagamentoFatura\<close>: debit the paying account, then raise the card's available
  limit by the value, capped at the total limit, when the card row is found.
\<close>

definition processarPagamentoFatura :: "despesa \<Rightarrow> db \<Rightarrow> db" where
  "processarPagamentoFatura despesa s =
     (let s1 = updateAccountBalance (d_account_id despesa) (d_valor despesa) Subtract s
      in case cartao_origem_id despesa of
           None \<Rightarrow> s1
         | Some cid \<Rightarrow>
             (case gzen_cartao_credito s1 cid of
                None \<Rightarrow> s1
              | Some cartao \<Rightarrow>
                  (let novoLimiteDisponivel = limite_disponivel cartao + d_valor despesa;
                       limiteAtualizado = min novoLimiteDisponivel (limite_total cartao)
                   in s1\<lparr>gzen_cartao_credito := (gzen_cartao_credito s1)(cid \<mapsto>
                          cartao\<lparr>limite_disponivel := limiteAtualizado\<rparr>)\<rparr>)))"

definition processarDespesa :: "int \<Rightarrow> despesa \<Rightarrow> nat \<Rightarrow> db \<Rightarrow> db" where
  "processarDespesa tza despesa userId s =
     (let s1 =
            (if eh_pagamento_fatura despesa \<and> cartao_origem_id despesa \<noteq> None
             then processarPagamentoFatura despesa s
             else updateAccountBalance (d_account_id despesa) (d_valor despesa) Subtract s)
      in updateOrcamento tza userId (data_despesa despesa) (d_valor despesa)
           TipoDespesa Add s1)"

text \<open>
  \<^verbatim>\<open>reverterDespesa\<close>: credit the account back; for an invoice payment also lower the
  card's available limit by the value, floored at zero.
\<close>

definition reverterDespesa :: "int \<Rightarrow> despesa \<Rightarrow> nat \<Rightarrow> db \<Rightarrow> db" where
  "reverterDespesa tza despesa userId s =
     (let s1 =
            (case (if eh_pagamento_fatura despesa then cartao_origem_id despesa else None) of
               Some cid \<Rightarrow>
                 (let s0 = updateAccountBalance (d_account_id despesa) (d_valor despesa) Add s
                  in case gzen_cartao_credito s0 cid of
                       None \<Rightarrow> s0
                     | Some cartao \<Rightarrow>
                         (let novoLimiteDisponivel =
                                limite_disponivel cartao - d_valor despesa;
                              limiteAtualizado = max novoLimiteDisponivel 0
                          in s0\<lparr>gzen_cartao_credito := (gzen_cartao_credito s0)(cid \<mapsto>
                                 cartao\<lparr>limite_disponivel := limiteAtualizado\<rparr>)\<rparr>))
             | None \<Rightarrow>
                 updateAccountBalance (d_account_id despesa) (d_valor despesa) Add s)
      in updateOrcamento tza userId (data_despesa despesa) (d_valor despesa)
           TipoDespesa Subtract s1)"

text \<open>\<^verbatim>\<open>findById\<close>: by id and owner; the \<^verbatim>\<open>ativo\<close> flag is not part of the query.\<close>

definition despesa_findById :: "nat \<Rightarrow> nat \<Rightarrow> db \<Rightarrow> despesa option" where
  "despesa_findById despesaId userId s =
     single (filter (\<lambda>r. d_id r = despesaId \<and> d_user_id r = userId) (gzen_despesas s))"

text \<open>
  \<^verbatim>\<open>handleBalanceUpdates\<close>: three independent tests on the old and the new status, in
  the order of the source.
\<close>

definition despesa_handleBalanceUpdates :: "int \<Rightarrow> despesa \<Rightarrow> despesa \<Rightarrow> nat \<Rightarrow> db \<Rightarrow> db" where
  "despesa_handleBalanceUpdates tza despesaAntiga despesaNova userId s =
     (let s1 = (if d_status despesaAntiga = Confirmada \<and> d_status despesaNova \<noteq> Confirmada
                then reverterDespesa tza despesaAntiga userId s else s);
          s2 = (if d_status despesaAntiga \<noteq> Confirmada \<and> d_status despesaNova = Confirmada
                then processarDespesa tza despesaNova userId s1 else s1);
          s3 = (if d_status despesaAntiga = Confirmada \<and> d_status despesaNova = Confirmada
                then processarDespesa tza despesaNova userId
                       (reverterDespesa tza despesaAntiga userId s2)
                else s2)
      in s3)"

text \<open>
  \<^verbatim>\<open>create\<close>. \<open>despesaError\<close> is the error the store answers the insert with, if any;
  the function then returns its message and nothing else happens. The tag rows are not
  modelled (their errors are only logged). New rows are active.
\<close>

definition despesa_create ::
  "int \<Rightarrow> string option \<Rightarrow> nat \<Rightarrow> despesa_data \<Rightarrow> db \<Rightarrow> (string + despesa) \<times> db" where
  "despesa_create tza despesaError userId despesaData s =
     (let dataDespesa = parse_sao_paulo (dd_data_despesa despesaData)
      in case despesaError of
           Some msg \<Rightarrow> (Inl msg, s)
         | None \<Rightarrow>
             (let despesa =
                    \<lparr>d_id = novo_id (map d_id (gzen_despesas s)),
                     d_user_id = userId,
                     d_account_id = dd_account_id despesaData,
                     d_valor = dd_valor despesaData,
                     data_despesa = toISOString_date dataDespesa,
                     d_status = dd_status despesaData,
                     d_ativo = True,
                     eh_pagamento_fatura = dd_eh_pagamento_fatura despesaData,
                     cartao_origem_id = dd_cartao_origem_id despesaData\<rparr>;
                  s1 = s\<lparr>gzen_despesas := gzen_despesas s @ [despesa]\<rparr>;
                  s2 = (if d_status despesa = Confirmada
                        then processarDespesa tza despesa userId s1 else s1)
              in (Inr despesa, s2)))"

text \<open>The columns an update payload sets; the others keep their values.\<close>

definition despesa_apply_update :: "despesa_update \<Rightarrow> despesa \<Rightarrow> despesa" where
  "despesa_apply_update u r =
     r\<lparr>d_account_id := (case du_account_id u of None \<Rightarrow> d_account_id r | Some v \<Rightarrow> v),
       d_valor := (case du_valor u of None \<Rightarrow> d_valor r | Some v \<Rightarrow> v),
       data_despesa := (case du_data_despesa u of None \<Rightarrow> data_despesa r | Some v \<Rightarrow> v),
       d_status := (case du_status u of None \<Rightarrow> d_status r | Some v \<Rightarrow> v),
       eh_pagamento_fatura :=
         (case du_eh_pagamento_fatura u of None \<Rightarrow> eh_pagamento_fatura r | Some v \<Rightarrow> v),
       cartao_origem_id :=
         (case du_cartao_origem_id u of None \<Rightarrow> cartao_origem_id r | Some v \<Rightarrow> Some v)\<rparr>"

text \<open>
  \<^verbatim>\<open>update\<close>. \<open>updError\<close> is the error the store answers the row update with, if any.
  The row returned by the store is the row \<^verbatim>\<open>findById\<close> found, with the payload applied.
\<close>

definition despesa_update ::
  "int \<Rightarrow> string option \<Rightarrow> nat \<Rightarrow> nat \<Rightarrow> despesa_update \<Rightarrow> db \<Rightarrow> (string + despesa) \<times> db" where
  "despesa_update tza updError despesaId userId updateData s =
     (case despesa_findById despesaId userId s of
        None \<Rightarrow> (Inl ''Despesa nao encontrada'', s)
      | Some despesaAtual \<Rightarrow>
          (let updateData1 =
                 (case du_data_despesa updateData of
                    None \<Rightarrow> updateData
                  | Some d \<Rightarrow>
                      updateData\<lparr>du_data_despesa :=
                        Some (toISOString_date (parse_sao_paulo d))\<rparr>)
           in case updError of
                Some msg \<Rightarrow> (Inl msg, s)
              | None \<Rightarrow>
                  (let despesa = despesa_apply_update updateData1 despesaAtual;
                       s1 = s\<lparr>gzen_despesas :=
                              map (\<lambda>r. if d_id r = despesaId \<and> d_user_id r = userId
                                        then despesa_apply_update updateData1 r else r)
                                  (gzen_despesas s)\<rparr>
                   in (Inr despesa,
                       despesa_handleBalanceUpdates tza despesaAtual despesa userId s1))))"

text \<open>
  \<^verbatim>\<open>delete\<close>: the soft delete writes \<^verbatim>\<open>ativo: false\<close>; \<open>delError\<close> is the error the
  store answers that write with, if any.
\<close>

definition despesa_delete ::
  "int \<Rightarrow> string option \<Rightarrow> nat \<Rightarrow> nat \<Rightarrow> db \<Rightarrow> (string + unit) \<times> db" where
  "despesa_delete tza delError despesaId userId s =
     (case despesa_findById despesaId userId s of
        None \<Rightarrow> (Inl ''Despesa nao encontrada'', s)
      | Some despesa \<Rightarrow>
          (case delError of
             Some msg \<Rightarrow> (Inl msg, s)
           | None \<Rightarrow>
               (let s1 = s\<lparr>gzen_despesas :=
                             map (\<lambda>r. if d_id r = despesaId \<and> d_user_id r = userId
                                       then r\<lparr>d_ativo := False\<rparr> else r)
                                 (gzen_despesas s)\<rparr>;
                    s2 = (if d_status despesa = Confirmada
                          then reverterDespesa tza despesa userId s1 else s1)
                in (Inr (), s2))))"

section \<open>\<^verbatim>\<open>Receita\<close>\<close>

definition receita_findById :: "nat \<Rightarrow> nat \<Rightarrow> db \<Rightarrow> receita option" where
  "receita_findById receitaId userId s =
     single (filter (\<lambda>r. r_id r = receitaId \<and> r_user_id r = userId) (gzen_receitas s))"

definition receita_handleBalanceUpdates :: "int \<Rightarrow> receita \<Rightarrow> receita \<Rightarrow> nat \<Rightarrow> db \<Rightarrow> db" where
  "receita_handleBalanceUpdates tza receitaAntiga receitaNova userId s =
     (let s1 = (if r_status receitaAntiga = Confirmada \<and> r_status receitaNova \<noteq> Confirmada
                then updateOrcamento tza userId (data_receita receitaAntiga)
                       (r_valor receitaAntiga) TipoReceita Subtract
                       (updateAccountBalance (r_account_id receitaAntiga)
                          (r_valor receitaAntiga) Subtract s)
                else s);
          s2 = (if r_status receitaAntiga \<noteq> Confirmada \<and> r_status receitaNova = Confirmada
                then updateOrcamento tza userId (data_receita receitaNova)
                       (r_valor receitaNova) TipoReceita Add
                       (updateAccountBalance (r_account_id receitaNova)
                          (r_valor receitaNova) Add s1)
                else s1);
          s3 = (if r_status receitaAntiga = Confirmada \<and> r_status receitaNova = Confirmada
                then updateOrcamento tza userId (data_receita receitaNova)
                       (r_valor receitaNova) TipoReceita Add
                       (updateAccountBalance (r_account_id receitaNova)
                          (r_valor receitaNova) Add
                          (updateOrcamento tza userId (data_receita receitaAntiga)
                             (r_valor receitaAntiga) TipoReceita Subtract
                             (updateAccountBalance (r_account_id receitaAntiga)
                                (r_valor receitaAntiga) Subtract s2)))
                else s2)
      in s3)"

definition receita_create ::
  "int \<Rightarrow> string option \<Rightarrow> nat \<Rightarrow> receita_data \<Rightarrow> db \<Rightarrow> (string + receita) \<times> db" where
  "receita_create tza receitaError userId receitaData s =
     (let dataReceita = parse_sao_paulo (rd_data_receita receitaData)
      in case receitaError of
           Some msg \<Rightarrow> (Inl msg, s)
         | None \<Rightarrow>
             (let receita =
                    \<lparr>r_id = novo_id (map r_id (gzen_receitas s)),
                     r_user_id = userId,
                     r_account_id = rd_account_id receitaData,
                     r_valor = rd_valor receitaData,
                     data_receita = toISOString_date dataReceita,
                     r_status = rd_status receitaData,
                     r_ativo = True\<rparr>;
                  s1 = s\<lparr>gzen_receitas := gzen_receitas s @ [receita]\<rparr>;
                  s2 = (if r_status receita = Confirmada
                        then updateOrcamento tza userId (data_receita receita)
                               (r_valor receita) TipoReceita Add
                               (updateAccountBalance (r_account_id receita)
                                  (r_valor receita) Add s1)
                        else s1)
              in (Inr receita, s2)))"

definition receita_apply_update :: "receita_update \<Rightarrow> receita \<Rightarrow> receita" where
  "receita_apply_update u r =
     r\<lparr>r_account_id := (case ru_account_id u of None \<Rightarrow> r_account_id r | Some v \<Rightarrow> v),
       r_valor := (case ru_valor u of None \<Rightarrow> r_valor r | Some v \<Rightarrow> v),
       data_receita := (case ru_data_receita u of None \<Rightarrow> data_receita r | Some v \<Rightarrow> v),
       r_status := (case ru_status u of None \<Rightarrow> r_status r | Some v \<Rightarrow> v)\<rparr>"

definition receita_update ::
  "int \<Rightarrow> string option \<Rightarrow> nat \<Rightarrow> nat \<Rightarrow> receita_update \<Rightarrow> db \<Rightarrow> (string + receita) \<times> db" where
  "receita_update tza updError receitaId userId updateData s =
     (case receita_findById receitaId userId s of
        None \<Rightarrow> (Inl ''Receita nao encontrada'', s)
      | Some receitaAtual \<Rightarrow>
          (let updateData1 =
                 (case ru_data_receita updateData of
                    None \<Rightarrow> updateData
                  | Some d \<Rightarrow>
                      updateData\<lparr>ru_data_receita :=
                        Some (toISOString_date (parse_sao_paulo d))\<rparr>)
           in case updError of
                Some msg \<Rightarrow> (Inl msg, s)
              | None \<Rightarrow>
                  (let receita = receita_apply_update updateData1 receitaAtual;
                       s1 = s\<lparr>gzen_receitas :=
                              map (\<lambda>r. if r_id r = receitaId \<and> r_user_id r = userId
                                        then receita_apply_update updateData1 r else r)
                                  (gzen_receitas s)\<rparr>
                   in (Inr receita,
                       receita_handleBalanceUpdates tza receitaAtual receita userId s1))))"

definition receita_delete ::
  "int \<Rightarrow> string option \<Rightarrow> nat \<Rightarrow> nat \<Rightarrow> db \<Rightarrow> (string + unit) \<times> db" where
  "receita_delete tza delError receitaId userId s =
     (case receita_findById receitaId userId s of
        None \<Rightarrow> (Inl ''Receita nao encontrada'', s)
      | Some receita \<Rightarrow>
          (case delError of
             Some msg \<Rightarrow> (Inl msg, s)
           | None \<Rightarrow>
               (let s1 = s\<lparr>gzen_receitas :=
                             map (\<lambda>r. if r_id r = receitaId \<and> r_user_id r = userId
                                       then r\<lparr>r_ativo := False\<rparr> else r)
                                 (gzen_receitas s)\<rparr>;
                    s2 = (if r_status receita = Confirmada
                          then updateOrcamento tza userId (data_receita receita)
                                 (r_valor receita) TipoReceita Subtract
                                 (updateAccountBalance (r_account_id receita)
                                    (r_valor receita) Subtract s1)
                          else s1)
                in (Inr (), s2))))"

section \<open>\<^verbatim>\<open>Orcamento.recalcular\<close>\<close>

text \<open>
  The two queries select the confirmed, active rows of the user whose date is between
  the first and the last day of the month; the totals are \<^verbatim>\<open>reduce\<close> sums from 0. The
  upsert writes the three totals and leaves \<^verbatim>\<open>meta_economia\<close> of an existing row alone.
  \<open>upsertError\<close> is the error the store answers the upsert with, if any.
\<close>

definition receitas_do_periodo :: "nat \<Rightarrow> date \<Rightarrow> date \<Rightarrow> db \<Rightarrow> receita list" where
  "receitas_do_periodo userId dataInicio dataFim s =
     filter (\<lambda>r. r_user_id r = userId \<and> r_status r = Confirmada \<and> r_ativo r
                 \<and> date_le dataInicio (data_receita r) \<and> date_le (data_receita r) dataFim)
       (gzen_receitas s)"

definition despesas_do_periodo :: "nat \<Rightarrow> date \<Rightarrow> date \<Rightarrow> db \<Rightarrow> despesa list" where
  "despesas_do_periodo userId dataInicio dataFim s =
     filter (\<lambda>r. d_user_id r = userId \<and> d_status r = Confirmada \<and> d_ativo r
                 \<and> date_le dataInicio (data_despesa r) \<and> date_le (data_despesa r) dataFim)
       (gzen_despesas s)"

definition recalcular ::
  "string option \<Rightarrow> nat \<Rightarrow> int \<Rightarrow> int \<Rightarrow> db \<Rightarrow> (string + orcamento) \<times> db" where
  "recalcular upsertError userId mes ano s =
     (let dataInicio = \<lparr>dt_ano = ano, dt_mes = mes, dt_dia = 1\<rparr>;
          dataFim = \<lparr>dt_ano = ano, dt_mes = mes, dt_dia = ultimoDia ano mes\<rparr>;
          receitas = receitas_do_periodo userId dataInicio dataFim s;
          despesas = despesas_do_periodo userId dataInicio dataFim s;
          receitaTotal = js_or (Some (foldl (\<lambda>sum r. sum + r_valor r) 0 receitas)) 0;
          despesaTotal = js_or (Some (foldl (\<lambda>sum d. sum + d_valor d) 0 despesas)) 0;
          saldoAtual = receitaTotal - despesaTotal
      in case upsertError of
           Some msg \<Rightarrow> (Inl msg, s)
         | None \<Rightarrow>
             (let orc =
                    (case gzen_orcamento s (userId, mes, ano) of
                       None \<Rightarrow>
                         \<lparr>receita_total = receitaTotal, despesa_total = despesaTotal,
                          saldo_atual = saldoAtual, meta_economia = 0\<rparr>
                     | Some old \<Rightarrow>
                         old\<lparr>receita_total := receitaTotal, despesa_total := despesaTotal,
                             saldo_atual := saldoAtual\<rparr>)
              in (Inr orc,
                  s\<lparr>gzen_orcamento := (gzen_orcamento s)((userId, mes, ano) \<mapsto> orc)\<rparr>)))"

section \<open>Observations, the reading of the specification, and example stores\<close>

text \<open>\<open>sucesso r\<close>: the operation returned a result and no error.\<close>

definition sucesso :: "string + 'a \<Rightarrow> bool" where
  "sucesso r = (case r of Inl _ \<Rightarrow> False | Inr _ \<Rightarrow> True)"

text \<open>
  Two accounts (1 with balance 1000, 2 with balance 2000), two credit cards (3 with
  3000 of 5000 available, 4 with nothing of 5000 available), no transactions, no budget.
\<close>

definition db_exemplo :: db where
  "db_exemplo =
     \<lparr>gzen_accounts = [1 \<mapsto> \<lparr>acc_saldo_atual = 1000\<rparr>, 2 \<mapsto> \<lparr>acc_saldo_atual = 2000\<rparr>],
      gzen_cartao_credito = [3 \<mapsto> \<lparr>limite_disponivel = 3000, limite_total = 5000\<rparr>,
                             4 \<mapsto> \<lparr>limite_disponivel = 0, limite_total = 5000\<rparr>],
      gzen_despesas = [], gzen_receitas = [], gzen_orcamento = Map.empty\<rparr>"

definition despesa_200 :: despesa_data where
  "despesa_200 =
     \<lparr>dd_account_id = 1, dd_valor = 200,
      dd_data_despesa = \<lparr>dt_ano = 2024, dt_mes = 3, dt_dia = 15\<rparr>,
      dd_status = Confirmada, dd_eh_pagamento_fatura = False, dd_cartao_origem_id = None\<rparr>"

definition fatura_3000 :: despesa where
  "fatura_3000 =
     \<lparr>d_id = 1, d_user_id = 7, d_account_id = 2, d_valor = 3000,
      data_despesa = \<lparr>dt_ano = 2024, dt_mes = 3, dt_dia = 15\<rparr>,
      d_status = Confirmada, d_ativo = True, eh_pagamento_fatura = True,
      cartao_origem_id = Some 3\<rparr>"

definition fatura_6000 :: despesa where
  "fatura_6000 =
     \<lparr>d_id = 1, d_user_id = 7, d_account_id = 2, d_valor = 6000,
      data_despesa = \<lparr>dt_ano = 2024, dt_mes = 3, dt_dia = 15\<rparr>,
      d_status = Confirmada, d_ativo = True, eh_pagamento_fatura = True,
      cartao_origem_id = Some 4\<rparr>"

text \<open>
  The totals the budget shows for a period (user, month, year); a period without a row
  shows 0, as the zeroed row of \<^verbatim>\<open>findOrCreateByPeriod\<close> would.
\<close>

definition despesa_total_em :: "db \<Rightarrow> nat \<times> int \<times> int \<Rightarrow> rat" where
  "despesa_total_em s k = (case gzen_orcamento s k of None \<Rightarrow> 0 | Some orc \<Rightarrow> despesa_total orc)"

definition receita_total_em :: "db \<Rightarrow> nat \<times> int \<times> int \<Rightarrow> rat" where
  "receita_total_em s k = (case gzen_orcamento s k of None \<Rightarrow> 0 | Some orc \<Rightarrow> receita_total orc)"

text \<open>
  A store whose only expense and only income refer to account 9, which does not exist,
  with payloads that refer to it and updates that set a new value.
\<close>

definition despesa_orfa :: despesa where
  "despesa_orfa =
     \<lparr>d_id = 1, d_user_id = 7, d_account_id = 9, d_valor = 50,
      data_despesa = \<lparr>dt_ano = 2024, dt_mes = 3, dt_dia = 15\<rparr>,
      d_status = Confirmada, d_ativo = True, eh_pagamento_fatura = False,
      cartao_origem_id = None\<rparr>"

definition receita_orfa :: receita where
  "receita_orfa =
     \<lparr>r_id = 1, r_user_id = 7, r_account_id = 9, r_valor = 70,
      data_receita = \<lparr>dt_ano = 2024, dt_mes = 3, dt_dia = 15\<rparr>,
      r_status = Confirmada, r_ativo = True\<rparr>"

definition db_orfas :: db where
  "db_orfas =
     \<lparr>gzen_accounts = [1 \<mapsto> \<lparr>acc_saldo_atual = 1000\<rparr>],
      gzen_cartao_credito = Map.empty,
      gzen_despesas = [despesa_orfa], gzen_receitas = [receita_orfa],
      gzen_orcamento = Map.empty\<rparr>"

definition despesa_data_orfa :: despesa_data where
  "despesa_data_orfa =
     \<lparr>dd_account_id = 9, dd_valor = 50,
      dd_data_despesa = \<lparr>dt_ano = 2024, dt_mes = 3, dt_dia = 15\<rparr>,
      dd_status = Confirmada, dd_eh_pagamento_fatura = False, dd_cartao_origem_id = None\<rparr>"

definition receita_data_orfa :: receita_data where
  "receita_data_orfa =
     \<lparr>rd_account_id = 9, rd_valor = 70,
      rd_data_receita = \<lparr>dt_ano = 2024, dt_mes = 3, dt_dia = 15\<rparr>,
      rd_status = Confirmada\<rparr>"

definition despesa_novo_valor :: "rat \<Rightarrow> despesa_update" where
  "despesa_novo_valor v =
     \<lparr>du_account_id = None, du_valor = Some v, du_data_despesa = None, du_status = None,
      du_eh_pagamento_fatura = None, du_cartao_origem_id = None\<rparr>"

definition receita_novo_valor :: "rat \<Rightarrow> receita_update" where
  "receita_novo_valor v =
     \<lparr>ru_account_id = None, ru_valor = Some v, ru_data_receita = None, ru_status = None\<rparr>"

text \<open>An update that sets a new status, and a pending expense of 300 on account 1.\<close>

definition despesa_novo_status :: "status \<Rightarrow> despesa_update" where
  "despesa_novo_status st =
     \<lparr>du_account_id = None, du_valor = None, du_data_despesa = None, du_status = Some st,
      du_eh_pagamento_fatura = None, du_cartao_origem_id = None\<rparr>"

definition despesa_300_pendente :: despesa_data where
  "despesa_300_pendente =
     \<lparr>dd_account_id = 1, dd_valor = 300,
      dd_data_despesa = \<lparr>dt_ano = 2024, dt_mes = 3, dt_dia = 15\<rparr>,
      dd_status = Pendente, dd_eh_pagamento_fatura = False, dd_cartao_origem_id = None\<rparr>"

text \<open>
  A confirmed income of 500 on account 1 of 15 March 2024, and an update that sets a new
  date.
\<close>

definition receita_500 :: receita_data where
  "receita_500 =
     \<lparr>rd_account_id = 1, rd_valor = 500,
      rd_data_receita = \<lparr>dt_ano = 2024, dt_mes = 3, dt_dia = 15\<rparr>,
      rd_status = Confirmada\<rparr>"

definition despesa_nova_data :: "date \<Rightarrow> despesa_update" where
  "despesa_nova_data d =
     \<lparr>du_account_id = None, du_valor = None, du_data_despesa = Some d, du_status = None,
      du_eh_pagamento_fatura = None, du_cartao_origem_id = None\<rparr>"

definition dias_no_mes :: "int \<Rightarrow> int \<Rightarrow> int" where
  "dias_no_mes a m =
     (if m = 2 then (if a mod 4 = 0 \<and> (a mod 400 = 0 \<or> a mod 100 \<noteq> 0) then 29 else 28)
      else if m = 4 \<or> m = 6 \<or> m = 9 \<or> m = 11 then 30 else 31)"

text \<open>
  The reading of the specification: a date is a calendar date; the transactions of a
  period are the active, confirmed rows of the user dated in that month of that year;
  the totals are the sums of their amounts.
\<close>

definition data_valida :: "date \<Rightarrow> bool" where
  "data_valida d =
     (1 \<le> dt_mes d \<and> dt_mes d \<le> 12 \<and> 1 \<le> dt_dia d
      \<and> dt_dia d \<le> dias_no_mes (dt_ano d) (dt_mes d))"

definition soma_receitas_confirmadas :: "nat \<Rightarrow> int \<Rightarrow> int \<Rightarrow> db \<Rightarrow> rat" where
  "soma_receitas_confirmadas userId mes ano s =
     sum_list (map r_valor
       (filter (\<lambda>r. r_user_id r = userId \<and> r_ativo r \<and> r_status r = Confirmada
                   \<and> dt_mes (data_receita r) = mes \<and> dt_ano (data_receita r) = ano)
          (gzen_receitas s)))"

definition soma_despesas_confirmadas :: "nat \<Rightarrow> int \<Rightarrow> int \<Rightarrow> db \<Rightarrow> rat" where
  "soma_despesas_confirmadas userId mes ano s =
     sum_list (map d_valor
       (filter (\<lambda>r. d_user_id r = userId \<and> d_ativo r \<and> d_status r = Confirmada
                   \<and> dt_mes (data_despesa r) = mes \<and> dt_ano (data_despesa r) = ano)
          (gzen_despesas s)))"

text \<open>
  User 7 in March 2024: incomes of 500 and 100 count; a pending one, a deleted one, one
  of 1 April, one of 29 February and one of user 8 do not. Expenses of 200 (1 March)
  and 40 (31 March) count; a cancelled one does not. The budget row is stale.
\<close>

definition db_recalculo :: db where
  "db_recalculo =
     \<lparr>gzen_accounts = Map.empty, gzen_cartao_credito = Map.empty,
      gzen_despesas =
        [\<lparr>d_id = 1, d_user_id = 7, d_account_id = 1, d_valor = 200,
          data_despesa = \<lparr>dt_ano = 2024, dt_mes = 3, dt_dia = 1\<rparr>,
          d_status = Confirmada, d_ativo = True, eh_pagamento_fatura = False,
          cartao_origem_id = None\<rparr>,
         \<lparr>d_id = 2, d_user_id = 7, d_account_id = 1, d_valor = 40,
          data_despesa = \<lparr>dt_ano = 2024, dt_mes = 3, dt_dia = 31\<rparr>,
          d_status = Confirmada, d_ativo = True, eh_pagamento_fatura = False,
          cartao_origem_id = None\<rparr>,
         \<lparr>d_id = 3, d_user_id = 7, d_account_id = 1, d_valor = 15,
          data_despesa = \<lparr>dt_ano = 2024, dt_mes = 3, dt_dia = 10\<rparr>,
          d_status = Cancelada, d_ativo = True, eh_pagamento_fatura = False,
          cartao_origem_id = None\<rparr>],
      gzen_receitas =
        [\<lparr>r_id = 1, r_user_id = 7, r_account_id = 1, r_valor = 500,
          data_receita = \<lparr>dt_ano = 2024, dt_mes = 3, dt_dia = 15\<rparr>,
          r_status = Confirmada, r_ativo = True\<rparr>,
         \<lparr>r_id = 2, r_user_id = 7, r_account_id = 1, r_valor = 100,
          data_receita = \<lparr>dt_ano = 2024, dt_mes = 3, dt_dia = 31\<rparr>,
          r_status = Confirmada, r_ativo = True\<rparr>,
         \<lparr>r_id = 3, r_user_id = 7, r_account_id = 1, r_valor = 50,
          data_receita = \<lparr>dt_ano = 2024, dt_mes = 3, dt_dia = 20\<rparr>,
          r_status = Pendente, r_ativo = True\<rparr>,
         \<lparr>r_id = 4, r_user_id = 7, r_account_id = 1, r_valor = 70,
          data_receita = \<lparr>dt_ano = 2024, dt_mes = 3, dt_dia = 21\<rparr>,
          r_status = Confirmada, r_ativo = False\<rparr>,
         \<lparr>r_id = 5, r_user_id = 7, r_account_id = 1, r_valor = 30,
          data_receita = \<lparr>dt_ano = 2024, dt_mes = 4, dt_dia = 1\<rparr>,
          r_status = Confirmada, r_ativo = True\<rparr>,
         \<lparr>r_id = 6, r_user_id = 7, r_account_id = 1, r_valor = 20,
          data_receita = \<lparr>dt_ano = 2024, dt_mes = 2, dt_dia = 29\<rparr>,
          r_status = Confirmada, r_ativo = True\<rparr>,
         \<lparr>r_id = 7, r_user_id = 8, r_account_id = 2, r_valor = 10,
          data_receita = \<lparr>dt_ano = 2024, dt_mes = 3, dt_dia = 15\<rparr>,
          r_status = Confirmada, r_ativo = True\<rparr>],
      gzen_orcamento = [(7, 3, 2024) \<mapsto>
        \<lparr>receita_total = 1, despesa_total = 2, saldo_atual = 3, meta_economia = 900\<rparr>]\<rparr>"

section \<open>What each side effect leaves alone\<close>

lemma updateOrcamento_fields [simp]:
  "gzen_accounts (updateOrcamento tza u dt v tp op s) = gzen_accounts s"
  "gzen_cartao_credito (updateOrcamento tza u dt v tp op s) = gzen_cartao_credito s"
  "gzen_despesas (updateOrcamento tza u dt v tp op s) = gzen_despesas s"
  "gzen_receitas (updateOrcamento tza u dt v tp op s) = gzen_receitas s"
  by (simp_all add: updateOrcamento_def Let_def split: prod.splits option.splits)

lemma updateAccountBalance_fields [simp]:
  "gzen_cartao_credito (updateAccountBalance a v op s) = gzen_cartao_credito s"
  "gzen_despesas (updateAccountBalance a v op s) = gzen_despesas s"
  "gzen_receitas (updateAccountBalance a v op s) = gzen_receitas s"
  "gzen_orcamento (updateAccountBalance a v op s) = gzen_orcamento s"
  by (simp_all add: updateAccountBalance_def Let_def split: option.splits)

lemma updateAccountBalance_missing:
  "gzen_accounts s a = None \<Longrightarrow> updateAccountBalance a v op s = s"
  by (simp add: updateAccountBalance_def)

lemma processarPagamentoFatura_fields [simp]:
  "gzen_accounts (processarPagamentoFatura d s) =
     gzen_accounts (updateAccountBalance (d_account_id d) (d_valor d) Subtract s)"
  "gzen_despesas (processarPagamentoFatura d s) = gzen_despesas s"
  "gzen_receitas (processarPagamentoFatura d s) = gzen_receitas s"
  "gzen_orcamento (processarPagamentoFatura d s) = gzen_orcamento s"
  by (simp_all add: processarPagamentoFatura_def Let_def split: option.splits)

lemma processarDespesa_fields [simp]:
  "gzen_accounts (processarDespesa tza d u s) =
     gzen_accounts (updateAccountBalance (d_account_id d) (d_valor d) Subtract s)"
  "gzen_despesas (processarDespesa tza d u s) = gzen_despesas s"
  "gzen_receitas (processarDespesa tza d u s) = gzen_receitas s"
  by (simp_all add: processarDespesa_def Let_def)

lemma reverterDespesa_fields [simp]:
  "gzen_accounts (reverterDespesa tza d u s) =
     gzen_accounts (updateAccountBalance (d_account_id d) (d_valor d) Add s)"
  "gzen_despesas (reverterDespesa tza d u s) = gzen_despesas s"
  "gzen_receitas (reverterDespesa tza d u s) = gzen_receitas s"
  by (simp_all add: reverterDespesa_def Let_def split: option.splits)

section \<open>Calendar arithmetic\<close>

lemma div_pred:
  fixes y n :: int
  assumes "0 < n"
  shows "y div n = (y - 1) div n + (if y mod n = 0 then 1 else 0)"
proof -
  define q where "q = y div n"
  define r where "r = y mod n"
  have y: "y = r + q * n" by (simp add: q_def r_def)
  have r: "0 \<le> r" "r < n" using assms by (simp_all add: r_def)
  show ?thesis
  proof (cases "r = 0")
    case True
    have "y - 1 = (n - 1) + (q - 1) * n" using y True by (simp add: algebra_simps)
    then have "(y - 1) div n = (q - 1) + (n - 1) div n"
      using assms by (simp only: div_mult_self1)
    also have "(n - 1) div n = 0" using assms by simp
    finally show ?thesis using True by (simp add: q_def r_def)
  next
    case False
    have "y - 1 = (r - 1) + q * n" using y by simp
    then have "(y - 1) div n = q + (r - 1) div n"
      using assms by (simp only: div_mult_self1)
    also have "(r - 1) div n = 0" using r False by simp
    finally show ?thesis using False by (simp add: q_def r_def)
  qed
qed

lemma mod_100_4: "(y::int) mod 100 = 0 \<Longrightarrow> y mod 4 = 0"
  using mod_mod_cancel [of 4 100 y] by simp

lemma mod_400_100: "(y::int) mod 400 = 0 \<Longrightarrow> y mod 100 = 0"
  using mod_mod_cancel [of 100 400 y] by simp

lemma DayFromYear_alt:
  "DayFromYear y =
     365 * (y - 1970) + (y - 1) div 4 - (y - 1) div 100 + (y - 1) div 400 - 477"
proof -
  have a: "(y - 1969) div 4 = (y - 1) div 4 - 492"
    using div_mult_self1 [of 4 "y - 1" "- 492"] by simp
  have b: "(y - 1901) div 100 = (y - 1) div 100 - 19"
    using div_mult_self1 [of 100 "y - 1" "- 19"] by simp
  have c: "(y - 1601) div 400 = (y - 1) div 400 - 4"
    using div_mult_self1 [of 400 "y - 1" "- 4"] by simp
  show ?thesis by (simp add: DayFromYear_def a b c)
qed

lemma mod_4_100: "(y::int) mod 4 \<noteq> 0 \<Longrightarrow> y mod 100 \<noteq> 0"
  by (rule notI, drule mod_100_4) simp

lemma mod_100_400: "(y::int) mod 100 \<noteq> 0 \<Longrightarrow> y mod 400 \<noteq> 0"
  by (rule notI, drule mod_400_100) simp

lemma DayFromYear_Suc: "DayFromYear (y + 1) = DayFromYear y + DaysInYear y"
proof -
  define a b c a' b' c' where "a = (y - 1) div 4" and "b = (y - 1) div 100"
    and "c = (y - 1) div 400" and "a' = y div 4" and "b' = y div 100" and "c' = y div 400"
  have n: "DayFromYear (y + 1) = 365 * (y - 1969) + a' - b' + c' - 477"
    by (simp add: DayFromYear_alt a'_def b'_def c'_def)
  have o: "DayFromYear y = 365 * (y - 1970) + a - b + c - 477"
    by (simp add: DayFromYear_alt a_def b_def c_def)
  have ea: "a' = a + (if y mod 4 = 0 then 1 else 0)"
    unfolding a'_def a_def by (rule div_pred) simp
  have eb: "b' = b + (if y mod 100 = 0 then 1 else 0)"
    unfolding b'_def b_def by (rule div_pred) simp
  have ec: "c' = c + (if y mod 400 = 0 then 1 else 0)"
    unfolding c'_def c_def by (rule div_pred) simp
  show ?thesis
  proof (cases "y mod 4 = 0")
    case False
    have m: "y mod 100 \<noteq> 0" using False by (rule mod_4_100)
    have m': "y mod 400 \<noteq> 0" using m by (rule mod_100_400)
    have "DaysInYear y = 365" using False by (simp only: DaysInYear_def if_True if_False simp_thms)
    moreover have "a' = a" "b' = b" "c' = c"
      using ea eb ec False m m' by (simp_all only: if_False if_True add_0_right simp_thms)
    ultimately show ?thesis unfolding n o by simp
  next
    case A: True
    show ?thesis
    proof (cases "y mod 100 = 0")
      case False
      have m': "y mod 400 \<noteq> 0" using False by (rule mod_100_400)
      have "DaysInYear y = 366"
        using A False by (simp only: DaysInYear_def if_True if_False simp_thms)
      moreover have "a' = a + 1" "b' = b" "c' = c"
        using ea eb ec A False m' by (simp_all only: if_False if_True add_0_right simp_thms)
      ultimately show ?thesis unfolding n o by simp
    next
      case B: True
      show ?thesis
      proof (cases "y mod 400 = 0")
        case False
        have "DaysInYear y = 365"
          using A B False by (simp only: DaysInYear_def if_True if_False simp_thms)
        moreover have "a' = a + 1" "b' = b + 1" "c' = c"
          using ea eb ec A B False by (simp_all only: if_False if_True add_0_right simp_thms)
        ultimately show ?thesis unfolding n o by simp
      next
        case True
        have "DaysInYear y = 366"
          using A B True by (simp only: DaysInYear_def if_True if_False simp_thms)
        moreover have "a' = a + 1" "b' = b + 1" "c' = c + 1"
          using ea eb ec A B True by (simp_all only: if_False if_True add_0_right simp_thms)
        ultimately show ?thesis unfolding n o by simp
      qed
    qed
  qed
qed

lemma DaysInYear_pos: "365 \<le> DaysInYear y" "DaysInYear y \<le> 366"
  by (simp_all add: DaysInYear_def)

lemma div_lower: "0 < n \<Longrightarrow> n * (x div n) \<le> (x::int)"
proof -
  assume n: "0 < n"
  have "n * (x div n) + x mod n = x" by simp
  moreover have "0 \<le> x mod n" using n by simp
  ultimately show ?thesis by linarith
qed

lemma div_upper: "0 < n \<Longrightarrow> (x::int) \<le> n * (x div n) + (n - 1)"
proof -
  assume n: "0 < n"
  have "n * (x div n) + x mod n = x" by simp
  moreover have "x mod n < n" using n by simp
  then have "x mod n \<le> n - 1" by simp
  ultimately show ?thesis by linarith
qed

lemma DayFromYear_estimate:
  "146097 * (y - 1970) - 506 \<le> 400 * DayFromYear y"
  "400 * DayFromYear y \<le> 146097 * (y - 1970) + 589"
proof -
  define a b c where "a = (y - 1) div 4" and "b = (y - 1) div 100" and "c = (y - 1) div 400"
  have o: "DayFromYear y = 365 * (y - 1970) + a - b + c - 477"
    by (simp add: DayFromYear_alt a_def b_def c_def)
  have a: "4 * a \<le> y - 1" "y - 1 \<le> 4 * a + 3"
    unfolding a_def using div_lower [of 4 "y - 1"] div_upper [of 4 "y - 1"] by simp_all
  have b: "100 * b \<le> y - 1" "y - 1 \<le> 100 * b + 99"
    unfolding b_def using div_lower [of 100 "y - 1"] div_upper [of 100 "y - 1"] by simp_all
  have c: "400 * c \<le> y - 1" "y - 1 \<le> 400 * c + 399"
    unfolding c_def using div_lower [of 400 "y - 1"] div_upper [of 400 "y - 1"] by simp_all
  have a': "100 * (y - 1) - 300 \<le> 400 * a" "400 * a \<le> 100 * (y - 1)"
    using a by simp_all
  have b': "4 * (y - 1) - 396 \<le> 400 * b" "400 * b \<le> 4 * (y - 1)"
    using b by simp_all
  have c': "(y - 1) - 399 \<le> 400 * c" "400 * c \<le> y - 1"
    using c by simp_all
  have e: "400 * DayFromYear y = 146000 * (y - 1970) + 400 * a - 400 * b + 400 * c - 190800"
    unfolding o by simp
  show "146097 * (y - 1970) - 506 \<le> 400 * DayFromYear y"
    unfolding e using a'(1) b'(2) c'(1) by simp
  show "400 * DayFromYear y \<le> 146097 * (y - 1970) + 589"
    unfolding e using a'(2) b'(1) c'(2) by simp
qed

lemma YearFromDay_in_year:
  assumes k: "0 \<le> k" "k < DaysInYear y"
  shows "YearFromDay (DayFromYear y + k) = y"
proof -
  define d where "d = DayFromYear y + k"
  define q where "q = (400 * d) div 146097"
  have q: "146097 * q \<le> 400 * d" "400 * d \<le> 146097 * q + 146096"
    unfolding q_def using div_lower [of 146097 "400 * d"] div_upper [of 146097 "400 * d"]
    by simp_all
  have k': "k \<le> 365" using k(2) DaysInYear_pos(2) [of y] by linarith
  have lo: "y - 1971 \<le> q"
  proof (rule ccontr)
    assume "\<not> y - 1971 \<le> q"
    then have "q \<le> y - 1972" by simp
    then have "146097 * q \<le> 146097 * (y - 1972)" by simp
    then show False
      using q(2) DayFromYear_estimate(1) [of y] k(1) unfolding d_def by simp
  qed
  have hi: "q \<le> y - 1969"
  proof (rule ccontr)
    assume "\<not> q \<le> y - 1969"
    then have "y - 1968 \<le> q" by simp
    then have "146097 * (y - 1968) \<le> 146097 * q" by simp
    then show False
      using q(1) DayFromYear_estimate(2) [of y] k' unfolding d_def by simp
  qed
  have s0: "DayFromYear y = DayFromYear (y - 1) + DaysInYear (y - 1)"
    using DayFromYear_Suc [of "y - 1"] by simp
  have s1: "DayFromYear (y + 1) = DayFromYear y + DaysInYear y"
    by (rule DayFromYear_Suc)
  have y2: "y + 1 + 1 = y + 2" by simp
  have s2: "DayFromYear (y + 2) = DayFromYear (y + 1) + DaysInYear (y + 1)"
    using DayFromYear_Suc [of "y + 1"] unfolding y2 .
  have p: "365 \<le> DaysInYear (y - 1)" "365 \<le> DaysInYear (y + 1)"
    by (rule DaysInYear_pos)+
  have d1: "DayFromYear y \<le> d" "d < DayFromYear (y + 1)" "d < DayFromYear (y + 2)"
    using k s1 s2 p unfolding d_def by linarith+
  consider "q = y - 1971" | "q = y - 1970" | "q = y - 1969"
    using lo hi by linarith
  then have "YearFromDay d = y"
  proof cases
    case 1
    then have c: "1970 + q = y - 1" by simp
    show ?thesis
      unfolding YearFromDay_def Let_def q_def [symmetric] c using d1 by simp
  next
    case 2
    then have c: "1970 + q = y" by simp
    show ?thesis
      unfolding YearFromDay_def Let_def q_def [symmetric] c using d1 by simp
  next
    case 3
    then have c: "1970 + q = y + 1" by simp
    show ?thesis
      unfolding YearFromDay_def Let_def q_def [symmetric] c y2 using d1 by simp
  qed
  then show ?thesis by (simp add: d_def)
qed

lemma InLeapYear_cases: "InLeapYear y = 0 \<or> InLeapYear y = 1"
  by (simp add: InLeapYear_def)

lemma DaysInYear_leap: "DaysInYear y = 365 + InLeapYear y"
  by (simp add: InLeapYear_def DaysInYear_def)

lemma fevereiro: "dias_no_mes y 2 = 28 + InLeapYear y"
  by (simp add: dias_no_mes_def InLeapYear_def DaysInYear_def)

lemma day_in_year:
  assumes "0 \<le> k" "k < 365 + InLeapYear y"
  shows "YearFromDay (DayFromYear y + k) = y"
    and "DayWithinYear (DayFromYear y + k) = k"
proof -
  show Y: "YearFromDay (DayFromYear y + k) = y"
    using assms by (intro YearFromDay_in_year) (simp_all add: DaysInYear_leap)
  show "DayWithinYear (DayFromYear y + k) = k"
    unfolding DayWithinYear_def Y by simp
qed

lemma DateFromDay_in_year:
  assumes "0 \<le> k" "k < 365 + InLeapYear y"
  shows "MonthFromDay (DayFromYear y + k) =
     (if k < 31 then 0 else if k < 59 + InLeapYear y then 1
      else if k < 90 + InLeapYear y then 2 else if k < 120 + InLeapYear y then 3
      else if k < 151 + InLeapYear y then 4 else if k < 181 + InLeapYear y then 5
      else if k < 212 + InLeapYear y then 6 else if k < 243 + InLeapYear y then 7
      else if k < 273 + InLeapYear y then 8 else if k < 304 + InLeapYear y then 9
      else if k < 334 + InLeapYear y then 10 else 11)"
    and "DateFromDay (DayFromYear y + k) =
      k - MonthStart (MonthFromDay (DayFromYear y + k)) (InLeapYear y) + 1"
  unfolding MonthFromDay_def DateFromDay_def day_in_year [OF assms] Let_def by (rule refl)+

lemma last_day_of_month:
  assumes m: "1 \<le> m" "m \<le> 12"
  shows "DateFromDay (MakeDay y m 0) = dias_no_mes y m"
proof -
  define l where "l = InLeapYear y"
  have l: "l = 0 \<or> l = 1" unfolding l_def by (rule InLeapYear_cases)
  have core: "DateFromDay (DayFromYear y + k) =
      k - MonthStart
        (if k < 31 then 0 else if k < 59 + l then 1 else if k < 90 + l then 2
         else if k < 120 + l then 3 else if k < 151 + l then 4 else if k < 181 + l then 5
         else if k < 212 + l then 6 else if k < 243 + l then 7 else if k < 273 + l then 8
         else if k < 304 + l then 9 else if k < 334 + l then 10 else 11) l + 1"
    if "0 \<le> k" "k < 365 + l" for k
    using DateFromDay_in_year [of k y] that unfolding l_def by simp
  have feb: "dias_no_mes y 2 = 28 + l" unfolding l_def by (rule fevereiro)
  have other: "dias_no_mes y 1 = 31" "dias_no_mes y 3 = 31" "dias_no_mes y 4 = 30"
    "dias_no_mes y 5 = 31" "dias_no_mes y 6 = 30" "dias_no_mes y 7 = 31"
    "dias_no_mes y 8 = 31" "dias_no_mes y 9 = 30" "dias_no_mes y 10 = 31"
    "dias_no_mes y 11 = 30" "dias_no_mes y 12 = 31"
    by (simp_all add: dias_no_mes_def)
  have mk: "MakeDay y m 0 = DayFromYear y + (MonthStart m l - 1)" if "m < 12"
    using m(1) that by (simp add: MakeDay_def Let_def l_def)
  have dec: "MakeDay y 12 0 = DayFromYear y + (364 + l)"
    using DayFromYear_Suc [of y]
    by (simp add: MakeDay_def Let_def MonthStart_def DaysInYear_leap l_def)
  have dj: "m = 1 \<or> m = 2 \<or> m = 3 \<or> m = 4 \<or> m = 5 \<or> m = 6 \<or> m = 7 \<or> m = 8 \<or> m = 9 \<or> m = 10 \<or> m = 11 \<or> m = 12"
    using m by presburger
  from dj show ?thesis
  proof (elim disjE)
    assume c: "m = 1"
    have "MakeDay y m 0 = DayFromYear y + 30" using mk c by (simp add: MonthStart_def)
    then show ?thesis using core [of 30] l c by (auto simp: MonthStart_def other)
  next
    assume c: "m = 2"
    have "MakeDay y m 0 = DayFromYear y + (58 + l)" using mk c by (simp add: MonthStart_def)
    then show ?thesis using core [of "58 + l"] l c by (auto simp: MonthStart_def feb)
  next
    assume c: "m = 3"
    have "MakeDay y m 0 = DayFromYear y + (89 + l)" using mk c by (simp add: MonthStart_def)
    then show ?thesis using core [of "89 + l"] l c by (auto simp: MonthStart_def other)
  next
    assume c: "m = 4"
    have "MakeDay y m 0 = DayFromYear y + (119 + l)" using mk c by (simp add: MonthStart_def)
    then show ?thesis using core [of "119 + l"] l c by (auto simp: MonthStart_def other)
  next
    assume c: "m = 5"
    have "MakeDay y m 0 = DayFromYear y + (150 + l)" using mk c by (simp add: MonthStart_def)
    then show ?thesis using core [of "150 + l"] l c by (auto simp: MonthStart_def other)
  next
    assume c: "m = 6"
    have "MakeDay y m 0 = DayFromYear y + (180 + l)" using mk c by (simp add: MonthStart_def)
    then show ?thesis using core [of "180 + l"] l c by (auto simp: MonthStart_def other)
  next
    assume c: "m = 7"
    have "MakeDay y m 0 = DayFromYear y + (211 + l)" using mk c by (simp add: MonthStart_def)
    then show ?thesis using core [of "211 + l"] l c by (auto simp: MonthStart_def other)
  next
    assume c: "m = 8"
    have "MakeDay y m 0 = DayFromYear y + (242 + l)" using mk c by (simp add: MonthStart_def)
    then show ?thesis using core [of "242 + l"] l c by (auto simp: MonthStart_def other)
  next
    assume c: "m = 9"
    have "MakeDay y m 0 = DayFromYear y + (272 + l)" using mk c by (simp add: MonthStart_def)
    then show ?thesis using core [of "272 + l"] l c by (auto simp: MonthStart_def other)
  next
    assume c: "m = 10"
    have "MakeDay y m 0 = DayFromYear y + (303 + l)" using mk c by (simp add: MonthStart_def)
    then show ?thesis using core [of "303 + l"] l c by (auto simp: MonthStart_def other)
  next
    assume c: "m = 11"
    have "MakeDay y m 0 = DayFromYear y + (333 + l)" using mk c by (simp add: MonthStart_def)
    then show ?thesis using core [of "333 + l"] l c by (auto simp: MonthStart_def other)
  next
    assume c: "m = 12"
    then show ?thesis using dec core [of "364 + l"] l by (auto simp: MonthStart_def other)
  qed
qed

section \<open>The stored date and its period\<close>

lemma civil_of_valid:
  assumes m: "1 \<le> m" "m \<le> 12" and dd: "1 \<le> dd" "dd \<le> dias_no_mes y m"
  shows "YearFromDay (MakeDay y (m - 1) dd) = y
       \<and> MonthFromDay (MakeDay y (m - 1) dd) = m - 1
       \<and> DateFromDay (MakeDay y (m - 1) dd) = dd"
proof -
  define l where "l = InLeapYear y"
  have l: "l = 0 \<or> l = 1" unfolding l_def by (rule InLeapYear_cases)
  have mk: "MakeDay y (m - 1) dd = DayFromYear y + (MonthStart (m - 1) l + dd - 1)"
    using m by (simp add: MakeDay_def Let_def l_def)
  have core: "YearFromDay (DayFromYear y + k) = y
      \<and> MonthFromDay (DayFromYear y + k) =
          (if k < 31 then 0 else if k < 59 + l then 1 else if k < 90 + l then 2
           else if k < 120 + l then 3 else if k < 151 + l then 4 else if k < 181 + l then 5
           else if k < 212 + l then 6 else if k < 243 + l then 7 else if k < 273 + l then 8
           else if k < 304 + l then 9 else if k < 334 + l then 10 else 11)
      \<and> DateFromDay (DayFromYear y + k) =
          k - MonthStart (MonthFromDay (DayFromYear y + k)) l + 1"
    if "0 \<le> k" "k < 365 + l" for k
    using DateFromDay_in_year [of k y] day_in_year(1) [of k y] that unfolding l_def by simp
  have feb: "dias_no_mes y 2 = 28 + l" unfolding l_def by (rule fevereiro)
  have other: "dias_no_mes y 1 = 31" "dias_no_mes y 3 = 31" "dias_no_mes y 4 = 30"
    "dias_no_mes y 5 = 31" "dias_no_mes y 6 = 30" "dias_no_mes y 7 = 31"
    "dias_no_mes y 8 = 31" "dias_no_mes y 9 = 30" "dias_no_mes y 10 = 31"
    "dias_no_mes y 11 = 30" "dias_no_mes y 12 = 31"
    by (simp_all add: dias_no_mes_def)
  have dj: "m = 1 \<or> m = 2 \<or> m = 3 \<or> m = 4 \<or> m = 5 \<or> m = 6 \<or> m = 7 \<or> m = 8 \<or> m = 9 \<or> m = 10 \<or> m = 11 \<or> m = 12"
    using m by presburger
  from dj show ?thesis
  proof (elim disjE)
    assume c: "m = 1"
    have e: "MakeDay y (m - 1) dd = DayFromYear y + (0 + dd - 1)"
      using mk c by (simp add: MonthStart_def)
    have b: "0 \<le> 0 + dd - 1" "0 + dd - 1 < 365 + l"
      using dd l c by (auto simp: feb other)
    show ?thesis
      unfolding e using core [OF b] dd l c by (auto simp: MonthStart_def feb other)
  next
    assume c: "m = 2"
    have e: "MakeDay y (m - 1) dd = DayFromYear y + (31 + dd - 1)"
      using mk c by (simp add: MonthStart_def)
    have b: "0 \<le> 31 + dd - 1" "31 + dd - 1 < 365 + l"
      using dd l c by (auto simp: feb other)
    show ?thesis
      unfolding e using core [OF b] dd l c by (auto simp: MonthStart_def feb other)
  next
    assume c: "m = 3"
    have e: "MakeDay y (m - 1) dd = DayFromYear y + (59 + l + dd - 1)"
      using mk c by (simp add: MonthStart_def)
    have b: "0 \<le> 59 + l + dd - 1" "59 + l + dd - 1 < 365 + l"
      using dd l c by (auto simp: feb other)
    show ?thesis
      unfolding e using core [OF b] dd l c by (auto simp: MonthStart_def feb other)
  next
    assume c: "m = 4"
    have e: "MakeDay y (m - 1) dd = DayFromYear y + (90 + l + dd - 1)"
      using mk c by (simp add: MonthStart_def)
    have b: "0 \<le> 90 + l + dd - 1" "90 + l + dd - 1 < 365 + l"
      using dd l c by (auto simp: feb other)
    show ?thesis
      unfolding e using core [OF b] dd l c by (auto simp: MonthStart_def feb other)
  next
    assume c: "m = 5"
    have e: "MakeDay y (m - 1) dd = DayFromYear y + (120 + l + dd - 1)"
      using mk c by (simp add: MonthStart_def)
    have b: "0 \<le> 120 + l + dd - 1" "120 + l + dd - 1 < 365 + l"
      using dd l c by (auto simp: feb other)
    show ?thesis
      unfolding e using core [OF b] dd l c by (auto simp: MonthStart_def feb other)
  next
    assume c: "m = 6"
    have e: "MakeDay y (m - 1) dd = DayFromYear y + (151 + l + dd - 1)"
      using mk c by (simp add: MonthStart_def)
    have b: "0 \<le> 151 + l + dd - 1" "151 + l + dd - 1 < 365 + l"
      using dd l c by (auto simp: feb other)
    show ?thesis
      unfolding e using core [OF b] dd l c by (auto simp: MonthStart_def feb other)
  next
    assume c: "m = 7"
    have e: "MakeDay y (m - 1) dd = DayFromYear y + (181 + l + dd - 1)"
      using mk c by (simp add: MonthStart_def)
    have b: "0 \<le> 181 + l + dd - 1" "181 + l + dd - 1 < 365 + l"
      using dd l c by (auto simp: feb other)
    show ?thesis
      unfolding e using core [OF b] dd l c by (auto simp: MonthStart_def feb other)
  next
    assume c: "m = 8"
    have e: "MakeDay y (m - 1) dd = DayFromYear y + (212 + l + dd - 1)"
      using mk c by (simp add: MonthStart_def)
    have b: "0 \<le> 212 + l + dd - 1" "212 + l + dd - 1 < 365 + l"
      using dd l c by (auto simp: feb other)
    show ?thesis
      unfolding e using core [OF b] dd l c by (auto simp: MonthStart_def feb other)
  next
    assume c: "m = 9"
    have e: "MakeDay y (m - 1) dd = DayFromYear y + (243 + l + dd - 1)"
      using mk c by (simp add: MonthStart_def)
    have b: "0 \<le> 243 + l + dd - 1" "243 + l + dd - 1 < 365 + l"
      using dd l c by (auto simp: feb other)
    show ?thesis
      unfolding e using core [OF b] dd l c by (auto simp: MonthStart_def feb other)
  next
    assume c: "m = 10"
    have e: "MakeDay y (m - 1) dd = DayFromYear y + (273 + l + dd - 1)"
      using mk c by (simp add: MonthStart_def)
    have b: "0 \<le> 273 + l + dd - 1" "273 + l + dd - 1 < 365 + l"
      using dd l c by (auto simp: feb other)
    show ?thesis
      unfolding e using core [OF b] dd l c by (auto simp: MonthStart_def feb other)
  next
    assume c: "m = 11"
    have e: "MakeDay y (m - 1) dd = DayFromYear y + (304 + l + dd - 1)"
      using mk c by (simp add: MonthStart_def)
    have b: "0 \<le> 304 + l + dd - 1" "304 + l + dd - 1 < 365 + l"
      using dd l c by (auto simp: feb other)
    show ?thesis
      unfolding e using core [OF b] dd l c by (auto simp: MonthStart_def feb other)
  next
    assume c: "m = 12"
    have e: "MakeDay y (m - 1) dd = DayFromYear y + (334 + l + dd - 1)"
      using mk c by (simp add: MonthStart_def)
    have b: "0 \<le> 334 + l + dd - 1" "334 + l + dd - 1 < 365 + l"
      using dd l c by (auto simp: feb other)
    show ?thesis
      unfolding e using core [OF b] dd l c by (auto simp: MonthStart_def feb other)
  qed
qed

lemma Day_of_midnight_plus:
  assumes "0 \<le> r" "r < 86400000"
  shows "Day (x * msPerDay + r) = x"
proof -
  have "(r + x * 86400000) div 86400000 = x + r div 86400000"
    by (simp only: div_mult_self1)
  also have "r div 86400000 = 0" using assms by simp
  finally show ?thesis by (simp add: Day_def msPerDay_def add.commute)
qed

lemma stored_date_is_payload_date:
  assumes "data_valida d"
  shows "toISOString_date (parse_sao_paulo d) = d"
proof -
  have c: "YearFromDay (MakeDay (dt_ano d) (dt_mes d - 1) (dt_dia d)) = dt_ano d
       \<and> MonthFromDay (MakeDay (dt_ano d) (dt_mes d - 1) (dt_dia d)) = dt_mes d - 1
       \<and> DateFromDay (MakeDay (dt_ano d) (dt_mes d - 1) (dt_dia d)) = dt_dia d"
    using assms by (intro civil_of_valid) (simp_all add: data_valida_def)
  have "Day (parse_sao_paulo d) = MakeDay (dt_ano d) (dt_mes d - 1) (dt_dia d)"
    unfolding parse_sao_paulo_def by (rule Day_of_midnight_plus) simp_all
  then show ?thesis
    using c by (simp add: toISOString_date_def)
qed

text \<open>
  Where \<^verbatim>\<open>updateOrcamento\<close> is right: on a server at UTC or east of it (less than a
  day), the period of a calendar date is its own month and year.
\<close>

lemma periodo_of_valid_date:
  assumes "data_valida d" "0 \<le> tza" "tza < 86400000"
  shows "periodo tza d = (dt_mes d, dt_ano d)"
proof -
  have c: "YearFromDay (MakeDay (dt_ano d) (dt_mes d - 1) (dt_dia d)) = dt_ano d
       \<and> MonthFromDay (MakeDay (dt_ano d) (dt_mes d - 1) (dt_dia d)) = dt_mes d - 1
       \<and> DateFromDay (MakeDay (dt_ano d) (dt_mes d - 1) (dt_dia d)) = dt_dia d"
    using assms(1) by (intro civil_of_valid) (simp_all add: data_valida_def)
  have "Day (parse_date_only d + tza) = MakeDay (dt_ano d) (dt_mes d - 1) (dt_dia d)"
    unfolding parse_date_only_def using assms(2,3) by (rule Day_of_midnight_plus)
  then show ?thesis
    using c by (simp add: periodo_def getMonth_def getFullYear_def Let_def)
qed

section \<open>The period of a transaction\<close>

text \<open>
  C9. The budget period of a transaction should be the month and year of its stored
  date, whatever the server's time zone. \<^verbatim>\<open>updateOrcamento\<close> reads the date text as
  midnight UTC and takes month and year in local time: on a server at UTC-3 the date
  2024-03-01 goes to February 2024, while at UTC it goes to March 2024 (as it does for
  every offset from 0 up to a day, by \<open>periodo_of_valid_date\<close>).
\<close>

theorem periodo_shifts_with_negative_offset:
  "periodo (- 10800000) \<lparr>dt_ano = 2024, dt_mes = 3, dt_dia = 1\<rparr> = (2, 2024)
   \<and> periodo 0 \<lparr>dt_ano = 2024, dt_mes = 3, dt_dia = 1\<rparr> = (3, 2024)"
  by code_simp

section \<open>Looking rows up\<close>

lemma fold_max_ge: "(a::nat) \<le> fold max xs a"
  by (induction xs arbitrary: a) (auto intro: order_trans [OF max.cobounded2])

lemma fold_max_mem: "x \<in> set xs \<Longrightarrow> (x::nat) \<le> fold max xs a"
proof (induction xs arbitrary: a)
  case Nil
  then show ?case by simp
next
  case (Cons y ys)
  show ?case
  proof (cases "x = y")
    case True
    have "y \<le> max y a" by simp
    also have "\<dots> \<le> fold max ys (max y a)" by (rule fold_max_ge)
    finally show ?thesis using True by simp
  next
    case False
    with Cons.prems have "x \<in> set ys" by simp
    then show ?thesis using Cons.IH by simp
  qed
qed

lemma novo_id_fresh: "x \<in> set ids \<Longrightarrow> x < novo_id ids"
  using fold_max_mem [of x ids 0] by (simp add: novo_id_def)

lemma filter_novo_id:
  "filter (\<lambda>r. f r = novo_id (map f rows) \<and> P r) rows = []"
proof -
  have "\<And>r. r \<in> set rows \<Longrightarrow> f r \<noteq> novo_id (map f rows)"
    using novo_id_fresh [of _ "map f rows"] by fastforce
  then show ?thesis by (simp add: filter_empty_conv)
qed

lemma filter_map_if:
  assumes "\<And>r. P r \<Longrightarrow> P (f r)"
  shows "filter P (map (\<lambda>r. if P r then f r else r) xs) = map f (filter P xs)"
  using assms by (induction xs) auto

lemma single_Some: "single xs = Some x \<longleftrightarrow> xs = [x]"
  by (auto simp: single_def split: list.splits)

lemma despesa_findById_map:
  assumes "despesa_findById i u s = Some d"
    and "\<And>r. d_id (f r) = d_id r" "\<And>r. d_user_id (f r) = d_user_id r"
  shows "despesa_findById i u
           (s\<lparr>gzen_despesas := map (\<lambda>r. if d_id r = i \<and> d_user_id r = u then f r else r)
                                  (gzen_despesas s)\<rparr>) = Some (f d)"
proof -
  have "filter (\<lambda>r. d_id r = i \<and> d_user_id r = u)
          (map (\<lambda>r. if d_id r = i \<and> d_user_id r = u then f r else r) (gzen_despesas s))
        = map f (filter (\<lambda>r. d_id r = i \<and> d_user_id r = u) (gzen_despesas s))"
    by (rule filter_map_if) (simp add: assms(2,3))
  then show ?thesis using assms(1) by (simp add: despesa_findById_def single_Some)
qed

lemma despesa_findById_cong:
  "gzen_despesas s' = gzen_despesas s \<Longrightarrow> despesa_findById i u s' = despesa_findById i u s"
  by (simp add: despesa_findById_def)

lemma despesa_findById_fields:
  "despesa_findById i u s = Some d \<Longrightarrow> d_id d = i \<and> d_user_id d = u"
proof -
  assume "despesa_findById i u s = Some d"
  then have "filter (\<lambda>r. d_id r = i \<and> d_user_id r = u) (gzen_despesas s) = [d]"
    by (simp add: despesa_findById_def single_Some)
  then have "d \<in> set (filter (\<lambda>r. d_id r = i \<and> d_user_id r = u) (gzen_despesas s))" by simp
  then show ?thesis by simp
qed

lemma despesa_findById_append:
  assumes "d_id d = novo_id (map d_id (gzen_despesas s))" "d_user_id d = u"
  shows "despesa_findById (d_id d) u (s\<lparr>gzen_despesas := gzen_despesas s @ [d]\<rparr>) = Some d"
  using assms filter_novo_id [of d_id "gzen_despesas s" "\<lambda>r. d_user_id r = u"]
  by (simp add: despesa_findById_def single_def)

lemma receita_findById_map:
  assumes "receita_findById i u s = Some d"
    and "\<And>r. r_id (f r) = r_id r" "\<And>r. r_user_id (f r) = r_user_id r"
  shows "receita_findById i u
           (s\<lparr>gzen_receitas := map (\<lambda>r. if r_id r = i \<and> r_user_id r = u then f r else r)
                                  (gzen_receitas s)\<rparr>) = Some (f d)"
proof -
  have "filter (\<lambda>r. r_id r = i \<and> r_user_id r = u)
          (map (\<lambda>r. if r_id r = i \<and> r_user_id r = u then f r else r) (gzen_receitas s))
        = map f (filter (\<lambda>r. r_id r = i \<and> r_user_id r = u) (gzen_receitas s))"
    by (rule filter_map_if) (simp add: assms(2,3))
  then show ?thesis using assms(1) by (simp add: receita_findById_def single_Some)
qed

lemma receita_findById_cong:
  "gzen_receitas s' = gzen_receitas s \<Longrightarrow> receita_findById i u s' = receita_findById i u s"
  by (simp add: receita_findById_def)

section \<open>Effects on balances and budget totals\<close>

text \<open>
  What \<^verbatim>\<open>updateOrcamento\<close> writes. Without a row for the period it inserts one from the
  value and the kind alone, whatever the operation. With a row it moves the total of the
  kind by the value and recomputes the balance, reading a new total of 0 as missing.
\<close>

lemma updateOrcamento_missing_row:
  assumes "gzen_orcamento s (userId, periodo tza data) = None"
  shows "updateOrcamento tza userId data valor tp Subtract s =
         updateOrcamento tza userId data valor tp Add s"
  using assms by (simp add: updateOrcamento_def split: prod.splits)

lemma updateOrcamento_despesa_row:
  assumes "gzen_orcamento s (userId, periodo tza data) = Some orc"
  shows "gzen_orcamento (updateOrcamento tza userId data valor TipoDespesa operation s)
           (userId, periodo tza data) =
         Some (orc\<lparr>despesa_total := despesa_total orc + valor * (if operation = Add then 1 else - 1),
                   saldo_atual := receita_total orc
                     - (if despesa_total orc + valor * (if operation = Add then 1 else - 1) = 0
                        then despesa_total orc
                        else despesa_total orc + valor * (if operation = Add then 1 else - 1))\<rparr>)"
  using assms by (simp add: updateOrcamento_def Let_def js_or_def split: prod.splits)

lemma updateOrcamento_receita_row:
  assumes "gzen_orcamento s (userId, periodo tza data) = Some orc"
  shows "gzen_orcamento (updateOrcamento tza userId data valor TipoReceita operation s)
           (userId, periodo tza data) =
         Some (orc\<lparr>receita_total := receita_total orc + valor * (if operation = Add then 1 else - 1),
                   saldo_atual :=
                     (if receita_total orc + valor * (if operation = Add then 1 else - 1) = 0
                      then receita_total orc
                      else receita_total orc + valor * (if operation = Add then 1 else - 1))
                     - despesa_total orc\<rparr>)"
  using assms by (simp add: updateOrcamento_def Let_def js_or_def split: prod.splits)

lemma updateOrcamento_orcamento_cong:
  "gzen_orcamento s1 = gzen_orcamento s2 \<Longrightarrow>
   gzen_orcamento (updateOrcamento tza u dt v tp op s1) =
   gzen_orcamento (updateOrcamento tza u dt v tp op s2)"
  by (simp add: updateOrcamento_def Let_def split: prod.splits option.splits)

lemma processarDespesa_orcamento:
  "gzen_orcamento (processarDespesa tza d u s) =
   gzen_orcamento (updateOrcamento tza u (data_despesa d) (d_valor d) TipoDespesa Add s)"
  unfolding processarDespesa_def Let_def
  by (rule updateOrcamento_orcamento_cong) simp

lemma reverterDespesa_orcamento:
  "gzen_orcamento (reverterDespesa tza d u s) =
   gzen_orcamento (updateOrcamento tza u (data_despesa d) (d_valor d) TipoDespesa Subtract s)"
  unfolding reverterDespesa_def Let_def
  by (rule updateOrcamento_orcamento_cong) (simp split: option.splits)

lemma updateOrcamento_row_exists:
  "gzen_orcamento (updateOrcamento tza u dt v tp op s) (u, periodo tza dt) \<noteq> None"
  by (simp add: updateOrcamento_def Let_def split: prod.splits option.splits)

lemma despesa_total_add:
  "despesa_total_em (updateOrcamento tza u dt v TipoDespesa Add s) (u, periodo tza dt) =
   despesa_total_em s (u, periodo tza dt) + v"
  by (simp add: despesa_total_em_def updateOrcamento_def Let_def split: prod.splits option.splits)

lemma despesa_total_subtract:
  "gzen_orcamento s (u, periodo tza dt) \<noteq> None \<Longrightarrow>
   despesa_total_em (updateOrcamento tza u dt v TipoDespesa Subtract s) (u, periodo tza dt) =
   despesa_total_em s (u, periodo tza dt) - v"
  by (auto simp add: despesa_total_em_def updateOrcamento_def Let_def split: prod.splits option.splits)

lemma receita_total_add:
  "receita_total_em (updateOrcamento tza u dt v TipoReceita Add s) (u, periodo tza dt) =
   receita_total_em s (u, periodo tza dt) + v"
  by (simp add: receita_total_em_def updateOrcamento_def Let_def split: prod.splits option.splits)

lemma receita_total_subtract:
  "gzen_orcamento s (u, periodo tza dt) \<noteq> None \<Longrightarrow>
   receita_total_em (updateOrcamento tza u dt v TipoReceita Subtract s) (u, periodo tza dt) =
   receita_total_em s (u, periodo tza dt) - v"
  by (auto simp add: receita_total_em_def updateOrcamento_def Let_def split: prod.splits option.splits)

lemma despesa_total_em_cong:
  "gzen_orcamento s1 = gzen_orcamento s2 \<Longrightarrow> despesa_total_em s1 k = despesa_total_em s2 k"
  by (simp add: despesa_total_em_def)

lemma receita_total_em_cong:
  "gzen_orcamento s1 = gzen_orcamento s2 \<Longrightarrow> receita_total_em s1 k = receita_total_em s2 k"
  by (simp add: receita_total_em_def)

lemma saldo_add:
  "gzen_accounts s a = Some \<lparr>acc_saldo_atual = b\<rparr> \<Longrightarrow>
   gzen_accounts (updateAccountBalance a v Add s) a = Some \<lparr>acc_saldo_atual = b + v\<rparr>"
  by (simp add: updateAccountBalance_def)

lemma saldo_subtract:
  "gzen_accounts s a = Some \<lparr>acc_saldo_atual = b\<rparr> \<Longrightarrow>
   gzen_accounts (updateAccountBalance a v Subtract s) a = Some \<lparr>acc_saldo_atual = b - v\<rparr>"
  by (simp add: updateAccountBalance_def)

lemma saldo_other:
  "a' \<noteq> a \<Longrightarrow> gzen_accounts (updateAccountBalance a v op s) a' = gzen_accounts s a'"
  by (simp add: updateAccountBalance_def Let_def split: option.splits)

lemma despesa_delete_found:
  assumes "despesa_findById i u s = Some d"
  shows "despesa_delete tza None i u s =
     (Inr (),
      if d_status d = Confirmada
      then reverterDespesa tza d u
             (s\<lparr>gzen_despesas := map (\<lambda>r. if d_id r = i \<and> d_user_id r = u
                                           then r\<lparr>d_ativo := False\<rparr> else r) (gzen_despesas s)\<rparr>)
      else s\<lparr>gzen_despesas := map (\<lambda>r. if d_id r = i \<and> d_user_id r = u
                                          then r\<lparr>d_ativo := False\<rparr> else r) (gzen_despesas s)\<rparr>)"
  using assms by (simp add: despesa_delete_def Let_def)


lemma receita_delete_found:
  assumes "receita_findById i u s = Some d"
  shows "receita_delete tza None i u s =
     (Inr (),
      if r_status d = Confirmada
      then updateOrcamento tza u (data_receita d) (r_valor d) TipoReceita Subtract
             (updateAccountBalance (r_account_id d) (r_valor d) Subtract
               (s\<lparr>gzen_receitas := map (\<lambda>r. if r_id r = i \<and> r_user_id r = u
                                           then r\<lparr>r_ativo := False\<rparr> else r) (gzen_receitas s)\<rparr>))
      else s\<lparr>gzen_receitas := map (\<lambda>r. if r_id r = i \<and> r_user_id r = u
                                          then r\<lparr>r_ativo := False\<rparr> else r) (gzen_receitas s)\<rparr>)"
  using assms by (simp add: receita_delete_def Let_def)

lemma despesa_delete_twice:
  assumes found: "despesa_findById i u s = Some d"
    and conf: "d_status d = Confirmada"
    and acc: "gzen_accounts s (d_account_id d) = Some \<lparr>acc_saldo_atual = b\<rparr>"
    and row: "gzen_orcamento s (u, periodo tza (data_despesa d)) \<noteq> None"
  shows "\<exists>s1 s2.
           despesa_delete tza None i u s = (Inr (), s1)
         \<and> despesa_findById i u s1 = Some (d\<lparr>d_ativo := False\<rparr>)
         \<and> despesa_delete tza None i u s1 = (Inr (), s2)
         \<and> gzen_accounts s1 (d_account_id d) = Some \<lparr>acc_saldo_atual = b + d_valor d\<rparr>
         \<and> gzen_accounts s2 (d_account_id d) =
             Some \<lparr>acc_saldo_atual = b + d_valor d + d_valor d\<rparr>
         \<and> despesa_total_em s1 (u, periodo tza (data_despesa d)) =
             despesa_total_em s (u, periodo tza (data_despesa d)) - d_valor d
         \<and> despesa_total_em s2 (u, periodo tza (data_despesa d)) =
             despesa_total_em s (u, periodo tza (data_despesa d)) - d_valor d - d_valor d"
proof -
  define off where "off = (\<lambda>t::db. t\<lparr>gzen_despesas :=
      map (\<lambda>r. if d_id r = i \<and> d_user_id r = u then r\<lparr>d_ativo := False\<rparr> else r)
        (gzen_despesas t)\<rparr>)"
  define d' where "d' = d\<lparr>d_ativo := False\<rparr>"
  define s1 where "s1 = reverterDespesa tza d u (off s)"
  define s2 where "s2 = reverterDespesa tza d' u (off s1)"
  define k where "k = (u, periodo tza (data_despesa d))"
  have d'_simps: "d_status d' = Confirmada" "d_account_id d' = d_account_id d"
    "d_valor d' = d_valor d" "data_despesa d' = data_despesa d"
    by (simp_all add: d'_def conf)
  have del1: "despesa_delete tza None i u s = (Inr (), s1)"
    using despesa_delete_found [OF found, of tza] by (simp add: conf s1_def off_def)
  have "despesa_findById i u (off s) = Some d'"
    unfolding off_def d'_def by (rule despesa_findById_map [OF found]) simp_all
  then have found1: "despesa_findById i u s1 = Some d'"
    by (simp add: s1_def despesa_findById_cong [of "reverterDespesa tza d u (off s)" "off s"])
  have del2: "despesa_delete tza None i u s1 = (Inr (), s2)"
    using despesa_delete_found [OF found1, of tza] by (simp add: d'_simps s2_def off_def)
  have "gzen_accounts (off s) (d_account_id d) = Some \<lparr>acc_saldo_atual = b\<rparr>"
    by (simp add: off_def acc)
  then have acc1: "gzen_accounts s1 (d_account_id d) = Some \<lparr>acc_saldo_atual = b + d_valor d\<rparr>"
    using saldo_add [of "off s" "d_account_id d" b "d_valor d"] by (simp add: s1_def)
  then have "gzen_accounts (off s1) (d_account_id d) = Some \<lparr>acc_saldo_atual = b + d_valor d\<rparr>"
    by (simp add: off_def)
  then have acc2: "gzen_accounts s2 (d_account_id d) =
      Some \<lparr>acc_saldo_atual = b + d_valor d + d_valor d\<rparr>"
    using saldo_add [of "off s1" "d_account_id d" "b + d_valor d" "d_valor d"]
    by (simp add: s2_def d'_simps)
  have orc1: "gzen_orcamento s1 =
      gzen_orcamento (updateOrcamento tza u (data_despesa d) (d_valor d) TipoDespesa Subtract s)"
    unfolding s1_def reverterDespesa_orcamento
    by (rule updateOrcamento_orcamento_cong) (simp add: off_def)
  have tot1: "despesa_total_em s1 k = despesa_total_em s k - d_valor d"
    unfolding k_def despesa_total_em_cong [OF orc1] using row by (rule despesa_total_subtract)
  have orc2: "gzen_orcamento s2 =
      gzen_orcamento (updateOrcamento tza u (data_despesa d) (d_valor d) TipoDespesa Subtract s1)"
    unfolding s2_def reverterDespesa_orcamento d'_simps
    by (rule updateOrcamento_orcamento_cong) (simp add: off_def)
  have row1: "gzen_orcamento s1 k \<noteq> None"
    unfolding orc1 k_def by (rule updateOrcamento_row_exists)
  have "despesa_total_em s2 k = despesa_total_em s1 k - d_valor d"
    unfolding k_def despesa_total_em_cong [OF orc2]
    using row1 unfolding k_def by (rule despesa_total_subtract)
  then have tot2: "despesa_total_em s2 k = despesa_total_em s k - d_valor d - d_valor d"
    using tot1 by simp
  show ?thesis
    using del1 found1 del2 acc1 acc2 tot1 tot2 unfolding k_def d'_def by blast
qed

lemma receita_delete_twice:
  assumes found: "receita_findById i u s = Some d"
    and conf: "r_status d = Confirmada"
    and acc: "gzen_accounts s (r_account_id d) = Some \<lparr>acc_saldo_atual = b\<rparr>"
    and row: "gzen_orcamento s (u, periodo tza (data_receita d)) \<noteq> None"
  shows "\<exists>s1 s2.
           receita_delete tza None i u s = (Inr (), s1)
         \<and> receita_findById i u s1 = Some (d\<lparr>r_ativo := False\<rparr>)
         \<and> receita_delete tza None i u s1 = (Inr (), s2)
         \<and> gzen_accounts s1 (r_account_id d) = Some \<lparr>acc_saldo_atual = b - r_valor d\<rparr>
         \<and> gzen_accounts s2 (r_account_id d) =
             Some \<lparr>acc_saldo_atual = b - r_valor d - r_valor d\<rparr>
         \<and> receita_total_em s1 (u, periodo tza (data_receita d)) =
             receita_total_em s (u, periodo tza (data_receita d)) - r_valor d
         \<and> receita_total_em s2 (u, periodo tza (data_receita d)) =
             receita_total_em s (u, periodo tza (data_receita d)) - r_valor d - r_valor d"
proof -
  define off where "off = (\<lambda>t::db. t\<lparr>gzen_receitas :=
      map (\<lambda>r. if r_id r = i \<and> r_user_id r = u then r\<lparr>r_ativo := False\<rparr> else r)
        (gzen_receitas t)\<rparr>)"
  define rev where "rev = (\<lambda>t::db. updateOrcamento tza u (data_receita d) (r_valor d) TipoReceita
      Subtract (updateAccountBalance (r_account_id d) (r_valor d) Subtract t))"
  define d' where "d' = d\<lparr>r_ativo := False\<rparr>"
  define s1 where "s1 = rev (off s)"
  define s2 where "s2 = rev (off s1)"
  define k where "k = (u, periodo tza (data_receita d))"
  have d'_simps: "r_status d' = Confirmada" "r_account_id d' = r_account_id d"
    "r_valor d' = r_valor d" "data_receita d' = data_receita d"
    by (simp_all add: d'_def conf)
  have del1: "receita_delete tza None i u s = (Inr (), s1)"
    using receita_delete_found [OF found, of tza] by (simp add: conf s1_def off_def rev_def)
  have f0: "receita_findById i u (off s) = Some d'"
    unfolding off_def d'_def by (rule receita_findById_map [OF found]) simp_all
  have "gzen_receitas s1 = gzen_receitas (off s)"
    by (simp add: s1_def rev_def)
  then have found1: "receita_findById i u s1 = Some d'"
    using f0 receita_findById_cong [of s1 "off s" i u] by simp
  have del2: "receita_delete tza None i u s1 = (Inr (), s2)"
    using receita_delete_found [OF found1, of tza] by (simp add: d'_simps s2_def off_def rev_def)
  have "gzen_accounts (off s) (r_account_id d) = Some \<lparr>acc_saldo_atual = b\<rparr>"
    by (simp add: off_def acc)
  then have acc1: "gzen_accounts s1 (r_account_id d) = Some \<lparr>acc_saldo_atual = b - r_valor d\<rparr>"
    using saldo_subtract [of "off s" "r_account_id d" b "r_valor d"] by (simp add: s1_def rev_def)
  then have "gzen_accounts (off s1) (r_account_id d) = Some \<lparr>acc_saldo_atual = b - r_valor d\<rparr>"
    by (simp add: off_def)
  then have acc2: "gzen_accounts s2 (r_account_id d) =
      Some \<lparr>acc_saldo_atual = b - r_valor d - r_valor d\<rparr>"
    using saldo_subtract [of "off s1" "r_account_id d" "b - r_valor d" "r_valor d"]
    by (simp add: s2_def rev_def)
  have orc1: "gzen_orcamento s1 =
      gzen_orcamento (updateOrcamento tza u (data_receita d) (r_valor d) TipoReceita Subtract s)"
    unfolding s1_def rev_def
    by (rule updateOrcamento_orcamento_cong) (simp add: off_def)
  have tot1: "receita_total_em s1 k = receita_total_em s k - r_valor d"
    unfolding k_def receita_total_em_cong [OF orc1] using row by (rule receita_total_subtract)
  have orc2: "gzen_orcamento s2 =
      gzen_orcamento (updateOrcamento tza u (data_receita d) (r_valor d) TipoReceita Subtract s1)"
    unfolding s2_def rev_def
    by (rule updateOrcamento_orcamento_cong) (simp add: off_def)
  have row1: "gzen_orcamento s1 k \<noteq> None"
    unfolding orc1 k_def by (rule updateOrcamento_row_exists)
  have "receita_total_em s2 k = receita_total_em s1 k - r_valor d"
    unfolding k_def receita_total_em_cong [OF orc2]
    using row1 unfolding k_def by (rule receita_total_subtract)
  then have tot2: "receita_total_em s2 k = receita_total_em s k - r_valor d - r_valor d"
    using tot1 by simp
  show ?thesis
    using del1 found1 del2 acc1 acc2 tot1 tot2 unfolding k_def d'_def by blast
qed

section \<open>Updates\<close>

lemma accounts_missing:
  "gzen_accounts s a = None \<Longrightarrow> gzen_accounts (updateAccountBalance a v op s) = gzen_accounts s"
  by (simp add: updateAccountBalance_missing)

lemma despesa_handle_cases:
  "d_status old \<noteq> Confirmada \<Longrightarrow> d_status new = Confirmada \<Longrightarrow>
     despesa_handleBalanceUpdates tza old new u s = processarDespesa tza new u s"
  "d_status old = Confirmada \<Longrightarrow> d_status new \<noteq> Confirmada \<Longrightarrow>
     despesa_handleBalanceUpdates tza old new u s = reverterDespesa tza old u s"
  "d_status old = Confirmada \<Longrightarrow> d_status new = Confirmada \<Longrightarrow>
     despesa_handleBalanceUpdates tza old new u s =
       processarDespesa tza new u (reverterDespesa tza old u s)"
  "d_status old \<noteq> Confirmada \<Longrightarrow> d_status new \<noteq> Confirmada \<Longrightarrow>
     despesa_handleBalanceUpdates tza old new u s = s"
  by (simp_all add: despesa_handleBalanceUpdates_def Let_def)

lemma receita_handle_cases:
  "r_status old \<noteq> Confirmada \<Longrightarrow> r_status new = Confirmada \<Longrightarrow>
     receita_handleBalanceUpdates tza old new u s =
       updateOrcamento tza u (data_receita new) (r_valor new) TipoReceita Add
         (updateAccountBalance (r_account_id new) (r_valor new) Add s)"
  "r_status old = Confirmada \<Longrightarrow> r_status new \<noteq> Confirmada \<Longrightarrow>
     receita_handleBalanceUpdates tza old new u s =
       updateOrcamento tza u (data_receita old) (r_valor old) TipoReceita Subtract
         (updateAccountBalance (r_account_id old) (r_valor old) Subtract s)"
  "r_status old = Confirmada \<Longrightarrow> r_status new = Confirmada \<Longrightarrow>
     receita_handleBalanceUpdates tza old new u s =
       updateOrcamento tza u (data_receita new) (r_valor new) TipoReceita Add
         (updateAccountBalance (r_account_id new) (r_valor new) Add
           (updateOrcamento tza u (data_receita old) (r_valor old) TipoReceita Subtract
             (updateAccountBalance (r_account_id old) (r_valor old) Subtract s)))"
  "r_status old \<noteq> Confirmada \<Longrightarrow> r_status new \<noteq> Confirmada \<Longrightarrow>
     receita_handleBalanceUpdates tza old new u s = s"
  by (simp_all add: receita_handleBalanceUpdates_def Let_def)

lemma despesa_handle_fields [simp]:
  "gzen_despesas (despesa_handleBalanceUpdates tza old new u s) = gzen_despesas s"
  "gzen_receitas (despesa_handleBalanceUpdates tza old new u s) = gzen_receitas s"
  by (simp_all add: despesa_handleBalanceUpdates_def Let_def)

lemma receita_handle_fields [simp]:
  "gzen_despesas (receita_handleBalanceUpdates tza old new u s) = gzen_despesas s"
  "gzen_receitas (receita_handleBalanceUpdates tza old new u s) = gzen_receitas s"
  by (simp_all add: receita_handleBalanceUpdates_def Let_def)

lemma despesa_handle_accounts_missing:
  assumes "gzen_accounts s (d_account_id old) = None" "gzen_accounts s (d_account_id new) = None"
  shows "gzen_accounts (despesa_handleBalanceUpdates tza old new u s) = gzen_accounts s"
  using assms by (simp add: despesa_handleBalanceUpdates_def Let_def accounts_missing)

lemma receita_handle_accounts_missing:
  assumes "gzen_accounts s (r_account_id old) = None" "gzen_accounts s (r_account_id new) = None"
  shows "gzen_accounts (receita_handleBalanceUpdates tza old new u s) = gzen_accounts s"
  using assms by (simp add: receita_handleBalanceUpdates_def Let_def accounts_missing)

lemma despesa_update_found:
  assumes found: "despesa_findById i u s = Some old"
  shows "\<exists>new s1.
      despesa_update tza None i u upd s =
        (Inr new, despesa_handleBalanceUpdates tza old new u s1)
    \<and> despesa_findById i u s1 = Some new
    \<and> gzen_accounts s1 = gzen_accounts s
    \<and> gzen_cartao_credito s1 = gzen_cartao_credito s
    \<and> gzen_orcamento s1 = gzen_orcamento s
    \<and> gzen_receitas s1 = gzen_receitas s
    \<and> d_account_id new = (case du_account_id upd of None \<Rightarrow> d_account_id old | Some v \<Rightarrow> v)
    \<and> d_valor new = (case du_valor upd of None \<Rightarrow> d_valor old | Some v \<Rightarrow> v)
    \<and> d_status new = (case du_status upd of None \<Rightarrow> d_status old | Some v \<Rightarrow> v)
    \<and> data_despesa new =
        (case du_data_despesa upd of None \<Rightarrow> data_despesa old
         | Some dt \<Rightarrow> toISOString_date (parse_sao_paulo dt))
    \<and> eh_pagamento_fatura new =
        (case du_eh_pagamento_fatura upd of None \<Rightarrow> eh_pagamento_fatura old | Some v \<Rightarrow> v)
    \<and> cartao_origem_id new =
        (case du_cartao_origem_id upd of None \<Rightarrow> cartao_origem_id old | Some v \<Rightarrow> Some v)"
proof -
  define upd1 where "upd1 =
     (case du_data_despesa upd of None \<Rightarrow> upd
      | Some dt \<Rightarrow> upd\<lparr>du_data_despesa := Some (toISOString_date (parse_sao_paulo dt))\<rparr>)"
  define new where "new = despesa_apply_update upd1 old"
  define s1 where "s1 = s\<lparr>gzen_despesas :=
      map (\<lambda>r. if d_id r = i \<and> d_user_id r = u then despesa_apply_update upd1 r else r)
        (gzen_despesas s)\<rparr>"
  have upd1: "du_account_id upd1 = du_account_id upd" "du_valor upd1 = du_valor upd"
    "du_status upd1 = du_status upd"
    "du_eh_pagamento_fatura upd1 = du_eh_pagamento_fatura upd"
    "du_cartao_origem_id upd1 = du_cartao_origem_id upd"
    "du_data_despesa upd1 =
       map_option (\<lambda>dt. toISOString_date (parse_sao_paulo dt)) (du_data_despesa upd)"
    by (simp_all add: upd1_def split: option.splits)
  have res: "despesa_update tza None i u upd s =
      (Inr new, despesa_handleBalanceUpdates tza old new u s1)"
    unfolding new_def s1_def upd1_def using found by (simp add: despesa_update_def Let_def)
  have f1: "despesa_findById i u s1 = Some new"
    unfolding s1_def new_def
    by (rule despesa_findById_map [OF found]) (simp_all add: despesa_apply_update_def)
  have tabs: "gzen_accounts s1 = gzen_accounts s" "gzen_cartao_credito s1 = gzen_cartao_credito s"
    "gzen_orcamento s1 = gzen_orcamento s" "gzen_receitas s1 = gzen_receitas s"
    by (simp_all add: s1_def)
  have flds: "d_account_id new = (case du_account_id upd of None \<Rightarrow> d_account_id old | Some v \<Rightarrow> v)"
    "d_valor new = (case du_valor upd of None \<Rightarrow> d_valor old | Some v \<Rightarrow> v)"
    "d_status new = (case du_status upd of None \<Rightarrow> d_status old | Some v \<Rightarrow> v)"
    "data_despesa new =
        (case du_data_despesa upd of None \<Rightarrow> data_despesa old
         | Some dt \<Rightarrow> toISOString_date (parse_sao_paulo dt))"
    "eh_pagamento_fatura new =
        (case du_eh_pagamento_fatura upd of None \<Rightarrow> eh_pagamento_fatura old | Some v \<Rightarrow> v)"
    "cartao_origem_id new =
        (case du_cartao_origem_id upd of None \<Rightarrow> cartao_origem_id old | Some v \<Rightarrow> Some v)"
    by (simp_all add: new_def despesa_apply_update_def upd1 split: option.splits)
  show ?thesis
    using res f1 tabs flds by blast
qed

lemma receita_update_found:
  assumes found: "receita_findById i u s = Some old"
  shows "\<exists>new s1.
      receita_update tza None i u upd s =
        (Inr new, receita_handleBalanceUpdates tza old new u s1)
    \<and> receita_findById i u s1 = Some new
    \<and> gzen_accounts s1 = gzen_accounts s
    \<and> gzen_cartao_credito s1 = gzen_cartao_credito s
    \<and> gzen_orcamento s1 = gzen_orcamento s
    \<and> gzen_despesas s1 = gzen_despesas s
    \<and> r_account_id new = (case ru_account_id upd of None \<Rightarrow> r_account_id old | Some v \<Rightarrow> v)
    \<and> r_valor new = (case ru_valor upd of None \<Rightarrow> r_valor old | Some v \<Rightarrow> v)
    \<and> r_status new = (case ru_status upd of None \<Rightarrow> r_status old | Some v \<Rightarrow> v)
    \<and> data_receita new =
        (case ru_data_receita upd of None \<Rightarrow> data_receita old
         | Some dt \<Rightarrow> toISOString_date (parse_sao_paulo dt))"
proof -
  define upd1 where "upd1 =
     (case ru_data_receita upd of None \<Rightarrow> upd
      | Some dt \<Rightarrow> upd\<lparr>ru_data_receita := Some (toISOString_date (parse_sao_paulo dt))\<rparr>)"
  define new where "new = receita_apply_update upd1 old"
  define s1 where "s1 = s\<lparr>gzen_receitas :=
      map (\<lambda>r. if r_id r = i \<and> r_user_id r = u then receita_apply_update upd1 r else r)
        (gzen_receitas s)\<rparr>"
  have upd1: "ru_account_id upd1 = ru_account_id upd" "ru_valor upd1 = ru_valor upd"
    "ru_status upd1 = ru_status upd"
    "ru_data_receita upd1 =
       map_option (\<lambda>dt. toISOString_date (parse_sao_paulo dt)) (ru_data_receita upd)"
    by (simp_all add: upd1_def split: option.splits)
  have res: "receita_update tza None i u upd s =
      (Inr new, receita_handleBalanceUpdates tza old new u s1)"
    unfolding new_def s1_def upd1_def using found by (simp add: receita_update_def Let_def)
  have f1: "receita_findById i u s1 = Some new"
    unfolding s1_def new_def
    by (rule receita_findById_map [OF found]) (simp_all add: receita_apply_update_def)
  have tabs: "gzen_accounts s1 = gzen_accounts s" "gzen_cartao_credito s1 = gzen_cartao_credito s"
    "gzen_orcamento s1 = gzen_orcamento s" "gzen_despesas s1 = gzen_despesas s"
    by (simp_all add: s1_def)
  have flds: "r_account_id new = (case ru_account_id upd of None \<Rightarrow> r_account_id old | Some v \<Rightarrow> v)"
    "r_valor new = (case ru_valor upd of None \<Rightarrow> r_valor old | Some v \<Rightarrow> v)"
    "r_status new = (case ru_status upd of None \<Rightarrow> r_status old | Some v \<Rightarrow> v)"
    "data_receita new =
        (case ru_data_receita upd of None \<Rightarrow> data_receita old
         | Some dt \<Rightarrow> toISOString_date (parse_sao_paulo dt))"
    by (simp_all add: new_def receita_apply_update_def upd1 split: option.splits)
  show ?thesis
    using res f1 tabs flds by blast
qed

section \<open>Observable effect of applying and reverting an expense\<close>

lemma processarDespesa_saldo:
  "gzen_accounts s (d_account_id d) = Some \<lparr>acc_saldo_atual = b\<rparr> \<Longrightarrow>
   gzen_accounts (processarDespesa tza d u s) (d_account_id d) =
     Some \<lparr>acc_saldo_atual = b - d_valor d\<rparr>"
  using saldo_subtract [of s "d_account_id d" b "d_valor d"] by simp

lemma reverterDespesa_saldo:
  "gzen_accounts s (d_account_id d) = Some \<lparr>acc_saldo_atual = b\<rparr> \<Longrightarrow>
   gzen_accounts (reverterDespesa tza d u s) (d_account_id d) =
     Some \<lparr>acc_saldo_atual = b + d_valor d\<rparr>"
  using saldo_add [of s "d_account_id d" b "d_valor d"] by simp

lemma processarDespesa_saldo_other:
  "a \<noteq> d_account_id d \<Longrightarrow>
   gzen_accounts (processarDespesa tza d u s) a = gzen_accounts s a"
  using saldo_other [of a "d_account_id d" "d_valor d" Subtract s] by simp

lemma reverterDespesa_saldo_other:
  "a \<noteq> d_account_id d \<Longrightarrow>
   gzen_accounts (reverterDespesa tza d u s) a = gzen_accounts s a"
  using saldo_other [of a "d_account_id d" "d_valor d" Add s] by simp

lemma processarDespesa_total:
  "despesa_total_em (processarDespesa tza d u s) (u, periodo tza (data_despesa d)) =
   despesa_total_em s (u, periodo tza (data_despesa d)) + d_valor d"
  using despesa_total_add [of tza u "data_despesa d" "d_valor d" s]
    despesa_total_em_cong [OF processarDespesa_orcamento [of tza d u s]]
  by simp

lemma reverterDespesa_total:
  "gzen_orcamento s (u, periodo tza (data_despesa d)) \<noteq> None \<Longrightarrow>
   despesa_total_em (reverterDespesa tza d u s) (u, periodo tza (data_despesa d)) =
   despesa_total_em s (u, periodo tza (data_despesa d)) - d_valor d"
  using despesa_total_subtract [of s u tza "data_despesa d" "d_valor d"]
    despesa_total_em_cong [OF reverterDespesa_orcamento [of tza d u s]]
  by simp

section \<open>The budget invariant\<close>

text \<open>
  C1. After every successful mutation of a budget row, \<open>saldo_atual\<close> should equal
  \<open>receita_total - despesa_total\<close>. The code recomputes \<open>saldo_atual\<close> from
  \<^verbatim>\<open>updates.despesa_total || orcamento.despesa_total\<close>, and a new total of 0 counts as
  missing there: user 7 creates a confirmed expense of 200 in an empty month and deletes
  it again; the row then holds income 0, expense 0 and balance \<open>-200\<close>.
\<close>

theorem updateOrcamento_zero_total_breaks_saldo:
  "gzen_orcamento (snd (despesa_delete 0 None 1 7
       (snd (despesa_create 0 None 7 despesa_200 db_exemplo)))) (7, 3, 2024)
   = Some \<lparr>receita_total = 0, despesa_total = 0, saldo_atual = - 200, meta_economia = 0\<rparr>"
  by code_simp

section \<open>Reconciliation\<close>

lemma ultimoDia_dias_no_mes:
  assumes "1 \<le> mes" "mes \<le> 12" "1000 \<le> ano"
  shows "ultimoDia ano mes = dias_no_mes ano mes"
  using assms last_day_of_month [of mes ano] by (simp add: ultimoDia_def)

lemma foldl_soma: "foldl (\<lambda>sum r. sum + f r) a xs = a + sum_list (map f xs)"
  for a :: rat
  by (induction xs arbitrary: a) (simp_all add: add.assoc)

lemma js_or_zero: "js_or (Some x) 0 = x"
  by (simp add: js_or_def)

lemma no_periodo_iff:
  assumes "1 \<le> mes" "mes \<le> 12" "1000 \<le> ano" and v: "data_valida d"
  shows "date_le \<lparr>dt_ano = ano, dt_mes = mes, dt_dia = 1\<rparr> d
       \<and> date_le d \<lparr>dt_ano = ano, dt_mes = mes, dt_dia = ultimoDia ano mes\<rparr>
     \<longleftrightarrow> dt_mes d = mes \<and> dt_ano d = ano"
proof
  assume "date_le \<lparr>dt_ano = ano, dt_mes = mes, dt_dia = 1\<rparr> d
       \<and> date_le d \<lparr>dt_ano = ano, dt_mes = mes, dt_dia = ultimoDia ano mes\<rparr>"
  then show "dt_mes d = mes \<and> dt_ano d = ano"
    by (auto simp: date_le_def)
next
  assume e: "dt_mes d = mes \<and> dt_ano d = ano"
  then have "dt_dia d \<le> ultimoDia ano mes" "1 \<le> dt_dia d"
    using v ultimoDia_dias_no_mes [OF assms(1-3)] by (simp_all add: data_valida_def)
  then show "date_le \<lparr>dt_ano = ano, dt_mes = mes, dt_dia = 1\<rparr> d
       \<and> date_le d \<lparr>dt_ano = ano, dt_mes = mes, dt_dia = ultimoDia ano mes\<rparr>"
    using e by (simp add: date_le_def)
qed

lemma receitas_do_periodo_total:
  assumes "1 \<le> mes" "mes \<le> 12" "1000 \<le> ano"
    and "list_all (\<lambda>r. data_valida (data_receita r)) (gzen_receitas s)"
  shows "sum_list (map r_valor
           (receitas_do_periodo userId \<lparr>dt_ano = ano, dt_mes = mes, dt_dia = 1\<rparr>
              \<lparr>dt_ano = ano, dt_mes = mes, dt_dia = ultimoDia ano mes\<rparr> s))
       = soma_receitas_confirmadas userId mes ano s"
proof -
  have "filter (\<lambda>r. r_user_id r = userId \<and> r_status r = Confirmada \<and> r_ativo r
                 \<and> date_le \<lparr>dt_ano = ano, dt_mes = mes, dt_dia = 1\<rparr> (data_receita r)
                 \<and> date_le (data_receita r)
                      \<lparr>dt_ano = ano, dt_mes = mes, dt_dia = ultimoDia ano mes\<rparr>)
          (gzen_receitas s)
      = filter (\<lambda>r. r_user_id r = userId \<and> r_ativo r \<and> r_status r = Confirmada
                   \<and> dt_mes (data_receita r) = mes \<and> dt_ano (data_receita r) = ano)
          (gzen_receitas s)"
  proof (rule filter_cong [OF refl])
    fix r assume "r \<in> set (gzen_receitas s)"
    then have "data_valida (data_receita r)"
      using assms(4) by (simp add: list_all_iff)
    then show "(r_user_id r = userId \<and> r_status r = Confirmada \<and> r_ativo r
                 \<and> date_le \<lparr>dt_ano = ano, dt_mes = mes, dt_dia = 1\<rparr> (data_receita r)
                 \<and> date_le (data_receita r)
                      \<lparr>dt_ano = ano, dt_mes = mes, dt_dia = ultimoDia ano mes\<rparr>)
        = (r_user_id r = userId \<and> r_ativo r \<and> r_status r = Confirmada
                   \<and> dt_mes (data_receita r) = mes \<and> dt_ano (data_receita r) = ano)"
      using no_periodo_iff [OF assms(1-3), of "data_receita r"] by blast
  qed
  then show ?thesis
    by (simp add: receitas_do_periodo_def soma_receitas_confirmadas_def)
qed

lemma despesas_do_periodo_total:
  assumes "1 \<le> mes" "mes \<le> 12" "1000 \<le> ano"
    and "list_all (\<lambda>r. data_valida (data_despesa r)) (gzen_despesas s)"
  shows "sum_list (map d_valor
           (despesas_do_periodo userId \<lparr>dt_ano = ano, dt_mes = mes, dt_dia = 1\<rparr>
              \<lparr>dt_ano = ano, dt_mes = mes, dt_dia = ultimoDia ano mes\<rparr> s))
       = soma_despesas_confirmadas userId mes ano s"
proof -
  have "filter (\<lambda>r. d_user_id r = userId \<and> d_status r = Confirmada \<and> d_ativo r
                 \<and> date_le \<lparr>dt_ano = ano, dt_mes = mes, dt_dia = 1\<rparr> (data_despesa r)
                 \<and> date_le (data_despesa r)
                      \<lparr>dt_ano = ano, dt_mes = mes, dt_dia = ultimoDia ano mes\<rparr>)
          (gzen_despesas s)
      = filter (\<lambda>r. d_user_id r = userId \<and> d_ativo r \<and> d_status r = Confirmada
                   \<and> dt_mes (data_despesa r) = mes \<and> dt_ano (data_despesa r) = ano)
          (gzen_despesas s)"
  proof (rule filter_cong [OF refl])
    fix r assume "r \<in> set (gzen_despesas s)"
    then have "data_valida (data_despesa r)"
      using assms(4) by (simp add: list_all_iff)
    then show "(d_user_id r = userId \<and> d_status r = Confirmada \<and> d_ativo r
                 \<and> date_le \<lparr>dt_ano = ano, dt_mes = mes, dt_dia = 1\<rparr> (data_despesa r)
                 \<and> date_le (data_despesa r)
                      \<lparr>dt_ano = ano, dt_mes = mes, dt_dia = ultimoDia ano mes\<rparr>)
        = (d_user_id r = userId \<and> d_ativo r \<and> d_status r = Confirmada
                   \<and> dt_mes (data_despesa r) = mes \<and> dt_ano (data_despesa r) = ano)"
      using no_periodo_iff [OF assms(1-3), of "data_despesa r"] by blast
  qed
  then show ?thesis
    by (simp add: despesas_do_periodo_def soma_despesas_confirmadas_def)
qed

lemma receitas_do_periodo_cong:
  "gzen_receitas s' = gzen_receitas s \<Longrightarrow>
   receitas_do_periodo u a b s' = receitas_do_periodo u a b s"
  by (simp add: receitas_do_periodo_def)

lemma despesas_do_periodo_cong:
  "gzen_despesas s' = gzen_despesas s \<Longrightarrow>
   despesas_do_periodo u a b s' = despesas_do_periodo u a b s"
  by (simp add: despesas_do_periodo_def)

text \<open>
  C2. For a month 1..12 of a four-digit year and a store whose transaction dates are
  calendar dates, \<^verbatim>\<open>recalcular\<close> (when its upsert succeeds) returns the row it stores;
  running it again returns the same row and leaves the store as it is; the row's income
  and expense totals are the sums of the amounts of the user's active, confirmed
  incomes and expenses dated in that month, and its balance is their difference.
\<close>

theorem recalcular_idempotent_and_exact:
  assumes "1 \<le> mes" "mes \<le> 12" "1000 \<le> ano"
    and "list_all (\<lambda>r. data_valida (data_receita r)) (gzen_receitas s)"
    and "list_all (\<lambda>r. data_valida (data_despesa r)) (gzen_despesas s)"
  shows "\<exists>orc s1.
      recalcular None userId mes ano s = (Inr orc, s1)
    \<and> recalcular None userId mes ano s1 = (Inr orc, s1)
    \<and> gzen_orcamento s1 (userId, mes, ano) = Some orc
    \<and> receita_total orc = soma_receitas_confirmadas userId mes ano s
    \<and> despesa_total orc = soma_despesas_confirmadas userId mes ano s
    \<and> saldo_atual orc =
        soma_receitas_confirmadas userId mes ano s - soma_despesas_confirmadas userId mes ano s"
proof -
  define R where "R = soma_receitas_confirmadas userId mes ano s"
  define D where "D = soma_despesas_confirmadas userId mes ano s"
  define ini where "ini = \<lparr>dt_ano = ano, dt_mes = mes, dt_dia = 1\<rparr>"
  define fim where "fim = \<lparr>dt_ano = ano, dt_mes = mes, dt_dia = ultimoDia ano mes\<rparr>"
  define orc where "orc =
     (case gzen_orcamento s (userId, mes, ano) of
        None \<Rightarrow> \<lparr>receita_total = R, despesa_total = D, saldo_atual = R - D, meta_economia = 0\<rparr>
      | Some old \<Rightarrow> old\<lparr>receita_total := R, despesa_total := D, saldo_atual := R - D\<rparr>)"
  define s1 where "s1 = s\<lparr>gzen_orcamento := (gzen_orcamento s)((userId, mes, ano) \<mapsto> orc)\<rparr>"
  have tr: "js_or (Some (foldl (\<lambda>sum r. sum + r_valor r) 0 (receitas_do_periodo userId ini fim s))) 0 = R"
    unfolding R_def ini_def fim_def js_or_zero foldl_soma
    using receitas_do_periodo_total [OF assms(1-4), of userId] by simp
  have td: "js_or (Some (foldl (\<lambda>sum d. sum + d_valor d) 0 (despesas_do_periodo userId ini fim s))) 0 = D"
    unfolding D_def ini_def fim_def js_or_zero foldl_soma
    using despesas_do_periodo_total [OF assms(1-3) assms(5), of userId] by simp
  have tr1: "receitas_do_periodo userId ini fim s1 = receitas_do_periodo userId ini fim s"
    by (rule receitas_do_periodo_cong) (simp add: s1_def)
  have td1: "despesas_do_periodo userId ini fim s1 = despesas_do_periodo userId ini fim s"
    by (rule despesas_do_periodo_cong) (simp add: s1_def)
  have first: "recalcular None userId mes ano s = (Inr orc, s1)"
    unfolding recalcular_def Let_def ini_def [symmetric] fim_def [symmetric] tr td
    by (simp add: orc_def s1_def)
  have row: "gzen_orcamento s1 (userId, mes, ano) = Some orc"
    by (simp add: s1_def)
  have flds: "receita_total orc = R" "despesa_total orc = D" "saldo_atual orc = R - D"
    by (simp_all add: orc_def split: option.splits)
  have again: "orc\<lparr>receita_total := R, despesa_total := D, saldo_atual := R - D\<rparr> = orc"
    using flds by simp
  have same: "s1\<lparr>gzen_orcamento := (gzen_orcamento s1)((userId, mes, ano) \<mapsto> orc)\<rparr> = s1"
    by (simp add: s1_def)
  have second: "recalcular None userId mes ano s1 = (Inr orc, s1)"
    unfolding recalcular_def Let_def ini_def [symmetric] fim_def [symmetric] tr1 td1 tr td
    by (simp add: row again same)
  show ?thesis
    using first second row flds unfolding R_def D_def by blast
qed

theorem recalcular_idempotent_and_exact_witness:
  "list_all (\<lambda>r. data_valida (data_receita r)) (gzen_receitas db_recalculo)
   \<and> list_all (\<lambda>r. data_valida (data_despesa r)) (gzen_despesas db_recalculo)
   \<and> soma_receitas_confirmadas 7 3 2024 db_recalculo = 600
   \<and> soma_despesas_confirmadas 7 3 2024 db_recalculo = 240
   \<and> (\<exists>orc s1.
      recalcular None 7 3 2024 db_recalculo = (Inr orc, s1)
    \<and> recalcular None 7 3 2024 s1 = (Inr orc, s1)
    \<and> gzen_orcamento s1 (7, 3, 2024) = Some orc
    \<and> receita_total orc = 600
    \<and> despesa_total orc = 240
    \<and> saldo_atual orc = 360)"
proof -
  have v1: "list_all (\<lambda>r. data_valida (data_receita r)) (gzen_receitas db_recalculo)"
    by (simp add: db_recalculo_def data_valida_def dias_no_mes_def)
  have v2: "list_all (\<lambda>r. data_valida (data_despesa r)) (gzen_despesas db_recalculo)"
    by (simp add: db_recalculo_def data_valida_def dias_no_mes_def)
  have r: "soma_receitas_confirmadas 7 3 2024 db_recalculo = 600"
    by (simp add: soma_receitas_confirmadas_def db_recalculo_def)
  have d: "soma_despesas_confirmadas 7 3 2024 db_recalculo = 240"
    by (simp add: soma_despesas_confirmadas_def db_recalculo_def)
  have m: "(1::int) \<le> 3" "(3::int) \<le> 12" "(1000::int) \<le> 2024" by simp_all
  show ?thesis
    using v1 v2 r d recalcular_idempotent_and_exact [OF m v1 v2, of 7] by simp
qed

section \<open>Invoice payments and the card limit\<close>

lemma card_forward:
  assumes "eh_pagamento_fatura d" "cartao_origem_id d = Some cid"
    and "gzen_cartao_credito s cid = Some c"
  shows "gzen_cartao_credito (processarDespesa tza d u s) cid =
      Some (c\<lparr>limite_disponivel := min (limite_disponivel c + d_valor d) (limite_total c)\<rparr>)"
  using assms by (simp add: processarDespesa_def processarPagamentoFatura_def Let_def)

lemma card_reverse:
  assumes "eh_pagamento_fatura d" "cartao_origem_id d = Some cid"
    and "gzen_cartao_credito s cid = Some c"
  shows "gzen_cartao_credito (reverterDespesa tza d u s) cid =
      Some (c\<lparr>limite_disponivel := max (limite_disponivel c - d_valor d) 0\<rparr>)"
  using assms by (simp add: reverterDespesa_def Let_def)

text \<open>
  C3, as amended. For an invoice payment \<open>d\<close> against a card \<open>c\<close> that the store holds,
  confirming sets the available limit to \<open>min (available + v) total\<close> and reverting sets
  it to \<open>max (available - v) 0\<close>. When confirming clamped (\<open>available + v > total\<close>) and
  the available limit was positive before, confirming and then reverting leaves
  \<open>max (total - v) 0\<close>, which is strictly below the limit before the payment.
\<close>

theorem invoice_payment_limit_clamps:
  assumes "eh_pagamento_fatura d" "cartao_origem_id d = Some cid"
    and "gzen_cartao_credito s cid = Some c"
  shows "gzen_cartao_credito (processarDespesa tza d u s) cid =
           Some (c\<lparr>limite_disponivel := min (limite_disponivel c + d_valor d) (limite_total c)\<rparr>)
       \<and> gzen_cartao_credito (reverterDespesa tza d u s) cid =
           Some (c\<lparr>limite_disponivel := max (limite_disponivel c - d_valor d) 0\<rparr>)
       \<and> (limite_total c < limite_disponivel c + d_valor d \<and> 0 < limite_disponivel c \<longrightarrow>
            gzen_cartao_credito (reverterDespesa tza d u (processarDespesa tza d u s)) cid =
              Some (c\<lparr>limite_disponivel := max (limite_total c - d_valor d) 0\<rparr>)
            \<and> max (limite_total c - d_valor d) 0 < limite_disponivel c)"
proof (intro conjI impI)
  show fwd: "gzen_cartao_credito (processarDespesa tza d u s) cid =
      Some (c\<lparr>limite_disponivel := min (limite_disponivel c + d_valor d) (limite_total c)\<rparr>)"
    by (rule card_forward [OF assms])
  show "gzen_cartao_credito (reverterDespesa tza d u s) cid =
      Some (c\<lparr>limite_disponivel := max (limite_disponivel c - d_valor d) 0\<rparr>)"
    by (rule card_reverse [OF assms])
  assume h: "limite_total c < limite_disponivel c + d_valor d \<and> 0 < limite_disponivel c"
  show "gzen_cartao_credito (reverterDespesa tza d u (processarDespesa tza d u s)) cid =
      Some (c\<lparr>limite_disponivel := max (limite_total c - d_valor d) 0\<rparr>)"
    using h card_reverse [OF assms(1,2) fwd, of tza u] by (simp add: min_def)
  show "max (limite_total c - d_valor d) 0 < limite_disponivel c"
    using h by (simp add: max_def)
qed

text \<open>The example of the specification: total 5000, available 3000, payment 3000.\<close>

theorem invoice_payment_limit_clamps_witness:
  "eh_pagamento_fatura fatura_3000 \<and> cartao_origem_id fatura_3000 = Some 3
   \<and> gzen_cartao_credito db_exemplo 3 = Some \<lparr>limite_disponivel = 3000, limite_total = 5000\<rparr>
   \<and> gzen_cartao_credito (processarDespesa 0 fatura_3000 7 db_exemplo) 3 =
        Some \<lparr>limite_disponivel = 5000, limite_total = 5000\<rparr>
   \<and> gzen_cartao_credito (reverterDespesa 0 fatura_3000 7 db_exemplo) 3 =
        Some \<lparr>limite_disponivel = 0, limite_total = 5000\<rparr>
   \<and> gzen_cartao_credito
        (reverterDespesa 0 fatura_3000 7 (processarDespesa 0 fatura_3000 7 db_exemplo)) 3 =
        Some \<lparr>limite_disponivel = 2000, limite_total = 5000\<rparr>"
proof -
  have h1: "eh_pagamento_fatura fatura_3000" by (simp add: fatura_3000_def)
  have h2: "cartao_origem_id fatura_3000 = Some 3" by (simp add: fatura_3000_def)
  have h3: "gzen_cartao_credito db_exemplo 3 =
      Some \<lparr>limite_disponivel = 3000, limite_total = 5000\<rparr>"
    by (simp add: db_exemplo_def)
  have v: "d_valor fatura_3000 = 3000" by (simp add: fatura_3000_def)
  show ?thesis
    using h1 h2 h3 invoice_payment_limit_clamps [OF h1 h2 h3, of 0 7] by (simp add: v)
qed

text \<open>
  The claim as written fails where nothing was available: card 4 has 0 of 5000
  available, a payment of 6000 is clamped to 5000, and reverting it gives 0 again, which
  is not strictly below the 0 from before the payment.
\<close>

theorem invoice_payment_limit_not_lower_from_zero:
  "gzen_cartao_credito db_exemplo 4 = Some \<lparr>limite_disponivel = 0, limite_total = 5000\<rparr>
   \<and> gzen_cartao_credito (processarDespesa 0 fatura_6000 7 db_exemplo) 4 =
        Some \<lparr>limite_disponivel = 5000, limite_total = 5000\<rparr>
   \<and> gzen_cartao_credito
        (reverterDespesa 0 fatura_6000 7 (processarDespesa 0 fatura_6000 7 db_exemplo)) 4 =
        Some \<lparr>limite_disponivel = 0, limite_total = 5000\<rparr>"
  by code_simp

section \<open>Status transitions\<close>

lemma despesa_create_nao_confirmada:
  assumes "dd_status dd \<noteq> Confirmada"
  shows "sucesso (fst (despesa_create tza None u dd s))
       \<and> gzen_accounts (snd (despesa_create tza None u dd s)) = gzen_accounts s
       \<and> gzen_cartao_credito (snd (despesa_create tza None u dd s)) = gzen_cartao_credito s
       \<and> gzen_orcamento (snd (despesa_create tza None u dd s)) = gzen_orcamento s"
  using assms by (simp add: despesa_create_def Let_def sucesso_def)

lemma receita_create_nao_confirmada:
  assumes "rd_status rd \<noteq> Confirmada"
  shows "sucesso (fst (receita_create tza None u rd s))
       \<and> gzen_accounts (snd (receita_create tza None u rd s)) = gzen_accounts s
       \<and> gzen_cartao_credito (snd (receita_create tza None u rd s)) = gzen_cartao_credito s
       \<and> gzen_orcamento (snd (receita_create tza None u rd s)) = gzen_orcamento s"
  using assms by (simp add: receita_create_def Let_def sucesso_def)

lemma despesa_confirm_via_update:
  assumes found: "despesa_findById i u s = Some old"
    and st0: "d_status old \<noteq> Confirmada"
    and st: "du_status upd = Some Confirmada"
    and acc: "gzen_accounts s (case du_account_id upd of None \<Rightarrow> d_account_id old | Some x \<Rightarrow> x)
                = Some \<lparr>acc_saldo_atual = b\<rparr>"
  shows "\<exists>new s'.
      despesa_update tza None i u upd s = (Inr new, s')
    \<and> d_account_id new = (case du_account_id upd of None \<Rightarrow> d_account_id old | Some x \<Rightarrow> x)
    \<and> d_valor new = (case du_valor upd of None \<Rightarrow> d_valor old | Some x \<Rightarrow> x)
    \<and> data_despesa new =
        (case du_data_despesa upd of None \<Rightarrow> data_despesa old
         | Some dt \<Rightarrow> toISOString_date (parse_sao_paulo dt))
    \<and> gzen_accounts s' (d_account_id new) = Some \<lparr>acc_saldo_atual = b - d_valor new\<rparr>
    \<and> despesa_total_em s' (u, periodo tza (data_despesa new)) =
        despesa_total_em s (u, periodo tza (data_despesa new)) + d_valor new"
proof -
  obtain new s1 where
    res: "despesa_update tza None i u upd s =
        (Inr new, despesa_handleBalanceUpdates tza old new u s1)"
    and acc1: "gzen_accounts s1 = gzen_accounts s"
    and orc1: "gzen_orcamento s1 = gzen_orcamento s"
    and na: "d_account_id new = (case du_account_id upd of None \<Rightarrow> d_account_id old | Some x \<Rightarrow> x)"
    and nv: "d_valor new = (case du_valor upd of None \<Rightarrow> d_valor old | Some x \<Rightarrow> x)"
    and ns: "d_status new = (case du_status upd of None \<Rightarrow> d_status old | Some x \<Rightarrow> x)"
    and nd: "data_despesa new =
        (case du_data_despesa upd of None \<Rightarrow> data_despesa old
         | Some dt \<Rightarrow> toISOString_date (parse_sao_paulo dt))"
    using despesa_update_found [OF found, of tza upd] by blast
  have conf: "d_status new = Confirmada" using ns st by simp
  define s' where "s' = processarDespesa tza new u s1"
  have h: "despesa_handleBalanceUpdates tza old new u s1 = s'"
    unfolding s'_def by (rule despesa_handle_cases(1) [OF st0 conf])
  have "gzen_accounts s1 (d_account_id new) = Some \<lparr>acc_saldo_atual = b\<rparr>"
    using acc by (simp add: acc1 na)
  then have a: "gzen_accounts s' (d_account_id new) = Some \<lparr>acc_saldo_atual = b - d_valor new\<rparr>"
    unfolding s'_def by (rule processarDespesa_saldo)
  have "despesa_total_em s' (u, periodo tza (data_despesa new)) =
      despesa_total_em s1 (u, periodo tza (data_despesa new)) + d_valor new"
    unfolding s'_def by (rule processarDespesa_total)
  then have t: "despesa_total_em s' (u, periodo tza (data_despesa new)) =
      despesa_total_em s (u, periodo tza (data_despesa new)) + d_valor new"
    using despesa_total_em_cong [OF orc1] by simp
  have "despesa_update tza None i u upd s = (Inr new, s')"
    by (simp add: res h)
  then show ?thesis using na nv nd a t by blast
qed

lemma despesa_unconfirm_via_update:
  assumes found: "despesa_findById i u s = Some old"
    and st0: "d_status old = Confirmada"
    and st: "du_status upd = Some st" "st \<noteq> Confirmada"
    and acc: "gzen_accounts s (d_account_id old) = Some \<lparr>acc_saldo_atual = b\<rparr>"
    and row: "gzen_orcamento s (u, periodo tza (data_despesa old)) \<noteq> None"
  shows "\<exists>new s'.
      despesa_update tza None i u upd s = (Inr new, s')
    \<and> d_status new = st
    \<and> gzen_accounts s' (d_account_id old) = Some \<lparr>acc_saldo_atual = b + d_valor old\<rparr>
    \<and> despesa_total_em s' (u, periodo tza (data_despesa old)) =
        despesa_total_em s (u, periodo tza (data_despesa old)) - d_valor old"
proof -
  obtain new s1 where
    res: "despesa_update tza None i u upd s =
        (Inr new, despesa_handleBalanceUpdates tza old new u s1)"
    and acc1: "gzen_accounts s1 = gzen_accounts s"
    and orc1: "gzen_orcamento s1 = gzen_orcamento s"
    and ns: "d_status new = (case du_status upd of None \<Rightarrow> d_status old | Some x \<Rightarrow> x)"
    using despesa_update_found [OF found, of tza upd] by blast
  have nst: "d_status new = st" using ns st by simp
  then have nconf: "d_status new \<noteq> Confirmada" using st by simp
  define s' where "s' = reverterDespesa tza old u s1"
  have h: "despesa_handleBalanceUpdates tza old new u s1 = s'"
    unfolding s'_def by (rule despesa_handle_cases(2) [OF st0 nconf])
  have "gzen_accounts s1 (d_account_id old) = Some \<lparr>acc_saldo_atual = b\<rparr>"
    using acc by (simp add: acc1)
  then have a: "gzen_accounts s' (d_account_id old) = Some \<lparr>acc_saldo_atual = b + d_valor old\<rparr>"
    unfolding s'_def by (rule reverterDespesa_saldo)
  have "gzen_orcamento s1 (u, periodo tza (data_despesa old)) \<noteq> None"
    using row by (simp add: orc1)
  then have "despesa_total_em s' (u, periodo tza (data_despesa old)) =
      despesa_total_em s1 (u, periodo tza (data_despesa old)) - d_valor old"
    unfolding s'_def by (rule reverterDespesa_total)
  then have t: "despesa_total_em s' (u, periodo tza (data_despesa old)) =
      despesa_total_em s (u, periodo tza (data_despesa old)) - d_valor old"
    using despesa_total_em_cong [OF orc1] by simp
  have "despesa_update tza None i u upd s = (Inr new, s')"
    by (simp add: res h)
  then show ?thesis using nst a t by blast
qed

lemma pending_confirm_pending:
  assumes acc: "gzen_accounts s a = Some \<lparr>acc_saldo_atual = b\<rparr>"
    and dd: "dd_account_id dd = a" "dd_valor dd = 300" "dd_status dd = Pendente"
  shows "\<exists>d s1 d2 s2 d3 s3.
      despesa_create tza None u dd s = (Inr d, s1)
    \<and> despesa_update tza None (d_id d) u (despesa_novo_status Confirmada) s1 = (Inr d2, s2)
    \<and> despesa_update tza None (d_id d) u (despesa_novo_status Pendente) s2 = (Inr d3, s3)
    \<and> gzen_accounts s1 a = Some \<lparr>acc_saldo_atual = b\<rparr>
    \<and> gzen_accounts s2 a = Some \<lparr>acc_saldo_atual = b - 300\<rparr>
    \<and> gzen_accounts s3 a = Some \<lparr>acc_saldo_atual = b\<rparr>"
proof -
  define d where "d =
     \<lparr>d_id = novo_id (map d_id (gzen_despesas s)), d_user_id = u,
      d_account_id = dd_account_id dd, d_valor = dd_valor dd,
      data_despesa = toISOString_date (parse_sao_paulo (dd_data_despesa dd)),
      d_status = dd_status dd, d_ativo = True,
      eh_pagamento_fatura = dd_eh_pagamento_fatura dd,
      cartao_origem_id = dd_cartao_origem_id dd\<rparr>"
  define s1 where "s1 = s\<lparr>gzen_despesas := gzen_despesas s @ [d]\<rparr>"
  have d_simps: "d_id d = novo_id (map d_id (gzen_despesas s))" "d_user_id d = u"
    "d_account_id d = a" "d_valor d = 300" "d_status d = Pendente"
    by (simp_all add: d_def dd)
  have create: "despesa_create tza None u dd s = (Inr d, s1)"
    by (simp add: despesa_create_def Let_def s1_def d_def dd)
  have found1: "despesa_findById (d_id d) u s1 = Some d"
    unfolding s1_def by (rule despesa_findById_append) (simp_all add: d_simps)
  have acc1: "gzen_accounts s1 a = Some \<lparr>acc_saldo_atual = b\<rparr>"
    by (simp add: s1_def acc)
  have u1: "du_account_id (despesa_novo_status Confirmada) = None"
    "du_valor (despesa_novo_status Confirmada) = None"
    "du_status (despesa_novo_status Confirmada) = Some Confirmada"
    "du_account_id (despesa_novo_status Pendente) = None"
    "du_valor (despesa_novo_status Pendente) = None"
    "du_status (despesa_novo_status Pendente) = Some Pendente"
    by (simp_all add: despesa_novo_status_def)
  obtain d2 t1 where
    res2: "despesa_update tza None (d_id d) u (despesa_novo_status Confirmada) s1 =
        (Inr d2, despesa_handleBalanceUpdates tza d d2 u t1)"
    and f2: "despesa_findById (d_id d) u t1 = Some d2"
    and acct1: "gzen_accounts t1 = gzen_accounts s1"
    and d2a: "d_account_id d2 = (case du_account_id (despesa_novo_status Confirmada) of
                None \<Rightarrow> d_account_id d | Some x \<Rightarrow> x)"
    and d2v: "d_valor d2 = (case du_valor (despesa_novo_status Confirmada) of
                None \<Rightarrow> d_valor d | Some x \<Rightarrow> x)"
    and d2s: "d_status d2 = (case du_status (despesa_novo_status Confirmada) of
                None \<Rightarrow> d_status d | Some x \<Rightarrow> x)"
    using despesa_update_found [OF found1, of tza "despesa_novo_status Confirmada"] by blast
  have d2: "d_account_id d2 = a" "d_valor d2 = 300" "d_status d2 = Confirmada"
    using d2a d2v d2s by (simp_all add: u1 d_simps)
  define s2 where "s2 = processarDespesa tza d2 u t1"
  have "d_status d \<noteq> Confirmada" by (simp add: d_simps)
  then have h2: "despesa_handleBalanceUpdates tza d d2 u t1 = s2"
    unfolding s2_def using d2(3) by (rule despesa_handle_cases(1))
  have upd2: "despesa_update tza None (d_id d) u (despesa_novo_status Confirmada) s1 =
      (Inr d2, s2)"
    by (simp add: res2 h2)
  have "gzen_accounts t1 (d_account_id d2) = Some \<lparr>acc_saldo_atual = b\<rparr>"
    by (simp add: acct1 acc1 d2)
  then have "gzen_accounts s2 (d_account_id d2) = Some \<lparr>acc_saldo_atual = b - d_valor d2\<rparr>"
    unfolding s2_def by (rule processarDespesa_saldo)
  then have acc2: "gzen_accounts s2 a = Some \<lparr>acc_saldo_atual = b - 300\<rparr>"
    by (simp add: d2)
  have "gzen_despesas s2 = gzen_despesas t1" by (simp add: s2_def)
  then have found2: "despesa_findById (d_id d) u s2 = Some d2"
    using f2 despesa_findById_cong [of s2 t1 "d_id d" u] by simp
  obtain d3 t2 where
    res3: "despesa_update tza None (d_id d) u (despesa_novo_status Pendente) s2 =
        (Inr d3, despesa_handleBalanceUpdates tza d2 d3 u t2)"
    and acct2: "gzen_accounts t2 = gzen_accounts s2"
    and d3s: "d_status d3 = (case du_status (despesa_novo_status Pendente) of
                None \<Rightarrow> d_status d2 | Some x \<Rightarrow> x)"
    using despesa_update_found [OF found2, of tza "despesa_novo_status Pendente"] by blast
  have d3: "d_status d3 \<noteq> Confirmada" using d3s by (simp add: u1)
  define s3 where "s3 = reverterDespesa tza d2 u t2"
  have h3: "despesa_handleBalanceUpdates tza d2 d3 u t2 = s3"
    unfolding s3_def using d2(3) d3 by (rule despesa_handle_cases(2))
  have upd3: "despesa_update tza None (d_id d) u (despesa_novo_status Pendente) s2 =
      (Inr d3, s3)"
    by (simp add: res3 h3)
  have "gzen_accounts t2 (d_account_id d2) = Some \<lparr>acc_saldo_atual = b - 300\<rparr>"
    by (simp add: acct2 acc2 d2)
  then have "gzen_accounts s3 (d_account_id d2) =
      Some \<lparr>acc_saldo_atual = b - 300 + d_valor d2\<rparr>"
    unfolding s3_def by (rule reverterDespesa_saldo)
  then have acc3: "gzen_accounts s3 a = Some \<lparr>acc_saldo_atual = b\<rparr>"
    by (simp add: d2)
  show ?thesis
    using create upd2 upd3 acc1 acc2 acc3 by blast
qed

lemma receita_confirm_via_update:
  assumes found: "receita_findById i u s = Some old"
    and st0: "r_status old \<noteq> Confirmada"
    and st: "ru_status upd = Some Confirmada"
    and acc: "gzen_accounts s (case ru_account_id upd of None \<Rightarrow> r_account_id old | Some x \<Rightarrow> x)
                = Some \<lparr>acc_saldo_atual = b\<rparr>"
  shows "\<exists>new s'.
      receita_update tza None i u upd s = (Inr new, s')
    \<and> r_account_id new = (case ru_account_id upd of None \<Rightarrow> r_account_id old | Some x \<Rightarrow> x)
    \<and> r_valor new = (case ru_valor upd of None \<Rightarrow> r_valor old | Some x \<Rightarrow> x)
    \<and> data_receita new =
        (case ru_data_receita upd of None \<Rightarrow> data_receita old
         | Some dt \<Rightarrow> toISOString_date (parse_sao_paulo dt))
    \<and> gzen_accounts s' (r_account_id new) = Some \<lparr>acc_saldo_atual = b + r_valor new\<rparr>
    \<and> receita_total_em s' (u, periodo tza (data_receita new)) =
        receita_total_em s (u, periodo tza (data_receita new)) + r_valor new"
proof -
  obtain new s1 where
    res: "receita_update tza None i u upd s =
        (Inr new, receita_handleBalanceUpdates tza old new u s1)"
    and acc1: "gzen_accounts s1 = gzen_accounts s"
    and orc1: "gzen_orcamento s1 = gzen_orcamento s"
    and na: "r_account_id new = (case ru_account_id upd of None \<Rightarrow> r_account_id old | Some x \<Rightarrow> x)"
    and nv: "r_valor new = (case ru_valor upd of None \<Rightarrow> r_valor old | Some x \<Rightarrow> x)"
    and ns: "r_status new = (case ru_status upd of None \<Rightarrow> r_status old | Some x \<Rightarrow> x)"
    and nd: "data_receita new =
        (case ru_data_receita upd of None \<Rightarrow> data_receita old
         | Some dt \<Rightarrow> toISOString_date (parse_sao_paulo dt))"
    using receita_update_found [OF found, of tza upd] by blast
  have conf: "r_status new = Confirmada" using ns st by simp
  define s0 where "s0 = updateAccountBalance (r_account_id new) (r_valor new) Add s1"
  define s' where "s' = updateOrcamento tza u (data_receita new) (r_valor new) TipoReceita Add s0"
  have h: "receita_handleBalanceUpdates tza old new u s1 = s'"
    unfolding s'_def s0_def by (rule receita_handle_cases(1) [OF st0 conf])
  have "gzen_accounts s1 (r_account_id new) = Some \<lparr>acc_saldo_atual = b\<rparr>"
    using acc by (simp add: acc1 na)
  then have "gzen_accounts s0 (r_account_id new) = Some \<lparr>acc_saldo_atual = b + r_valor new\<rparr>"
    unfolding s0_def by (rule saldo_add)
  then have a: "gzen_accounts s' (r_account_id new) = Some \<lparr>acc_saldo_atual = b + r_valor new\<rparr>"
    by (simp add: s'_def)
  have "gzen_orcamento s0 = gzen_orcamento s" by (simp add: s0_def orc1)
  then have o: "receita_total_em s0 (u, periodo tza (data_receita new)) =
      receita_total_em s (u, periodo tza (data_receita new))"
    by (rule receita_total_em_cong)
  have t: "receita_total_em s' (u, periodo tza (data_receita new)) =
      receita_total_em s (u, periodo tza (data_receita new)) + r_valor new"
    unfolding s'_def using receita_total_add [of tza u "data_receita new" "r_valor new" s0] o
    by simp
  have "receita_update tza None i u upd s = (Inr new, s')"
    by (simp add: res h)
  then show ?thesis using na nv nd a t by blast
qed

lemma receita_unconfirm_via_update:
  assumes found: "receita_findById i u s = Some old"
    and st0: "r_status old = Confirmada"
    and st: "ru_status upd = Some st" "st \<noteq> Confirmada"
    and acc: "gzen_accounts s (r_account_id old) = Some \<lparr>acc_saldo_atual = b\<rparr>"
    and row: "gzen_orcamento s (u, periodo tza (data_receita old)) \<noteq> None"
  shows "\<exists>new s'.
      receita_update tza None i u upd s = (Inr new, s')
    \<and> r_status new = st
    \<and> gzen_accounts s' (r_account_id old) = Some \<lparr>acc_saldo_atual = b - r_valor old\<rparr>
    \<and> receita_total_em s' (u, periodo tza (data_receita old)) =
        receita_total_em s (u, periodo tza (data_receita old)) - r_valor old"
proof -
  obtain new s1 where
    res: "receita_update tza None i u upd s =
        (Inr new, receita_handleBalanceUpdates tza old new u s1)"
    and acc1: "gzen_accounts s1 = gzen_accounts s"
    and orc1: "gzen_orcamento s1 = gzen_orcamento s"
    and ns: "r_status new = (case ru_status upd of None \<Rightarrow> r_status old | Some x \<Rightarrow> x)"
    using receita_update_found [OF found, of tza upd] by blast
  have nst: "r_status new = st" using ns st by simp
  then have nconf: "r_status new \<noteq> Confirmada" using st by simp
  define s0 where "s0 = updateAccountBalance (r_account_id old) (r_valor old) Subtract s1"
  define s' where
    "s' = updateOrcamento tza u (data_receita old) (r_valor old) TipoReceita Subtract s0"
  have h: "receita_handleBalanceUpdates tza old new u s1 = s'"
    unfolding s'_def s0_def by (rule receita_handle_cases(2) [OF st0 nconf])
  have "gzen_accounts s1 (r_account_id old) = Some \<lparr>acc_saldo_atual = b\<rparr>"
    using acc by (simp add: acc1)
  then have "gzen_accounts s0 (r_account_id old) = Some \<lparr>acc_saldo_atual = b - r_valor old\<rparr>"
    unfolding s0_def by (rule saldo_subtract)
  then have a: "gzen_accounts s' (r_account_id old) = Some \<lparr>acc_saldo_atual = b - r_valor old\<rparr>"
    by (simp add: s'_def)
  have o0: "gzen_orcamento s0 = gzen_orcamento s" by (simp add: s0_def orc1)
  then have o: "receita_total_em s0 (u, periodo tza (data_receita old)) =
      receita_total_em s (u, periodo tza (data_receita old))"
    by (rule receita_total_em_cong)
  have "gzen_orcamento s0 (u, periodo tza (data_receita old)) \<noteq> None"
    using row by (simp add: o0)
  then have "receita_total_em s' (u, periodo tza (data_receita old)) =
      receita_total_em s0 (u, periodo tza (data_receita old)) - r_valor old"
    unfolding s'_def by (rule receita_total_subtract)
  then have t: "receita_total_em s' (u, periodo tza (data_receita old)) =
      receita_total_em s (u, periodo tza (data_receita old)) - r_valor old"
    using o by simp
  have "receita_update tza None i u upd s = (Inr new, s')"
    by (simp add: res h)
  then show ?thesis using nst a t by blast
qed

text \<open>
  C4. The status decides the monetary effect: an update from confirmed to a status that
  is not confirmed should reverse the effect of the old row. The code restores the
  account balance and takes the amount off the total of the period, but it leaves the
  balance of the budget row where it was when the total comes back to 0, because
  \<^verbatim>\<open>updateOrcamento\<close> reads the new total through
  \<^verbatim>\<open>updates.despesa_total || orcamento.despesa_total\<close>. User 7 creates a pending expense
  of 300 against account 1 in a month without budget row (nothing changes), confirms it
  (account 700; income 0, expense 300, balance \<open>-300\<close>) and sets it back to pending: the
  account is back at 1000, and the row holds income 0, expense 0 and balance \<open>-300\<close>.
\<close>

theorem unconfirm_leaves_saldo_atual_unreversed:
  "(let r1 = despesa_create 0 None 7 despesa_300_pendente db_exemplo;
        r2 = despesa_update 0 None 1 7 (despesa_novo_status Confirmada) (snd r1);
        r3 = despesa_update 0 None 1 7 (despesa_novo_status Pendente) (snd r2)
    in sucesso (fst r1) \<and> sucesso (fst r2) \<and> sucesso (fst r3)
     \<and> gzen_accounts (snd r1) 1 = Some \<lparr>acc_saldo_atual = 1000\<rparr>
     \<and> gzen_orcamento (snd r1) (7, 3, 2024) = None
     \<and> gzen_accounts (snd r2) 1 = Some \<lparr>acc_saldo_atual = 700\<rparr>
     \<and> gzen_orcamento (snd r2) (7, 3, 2024) =
         Some \<lparr>receita_total = 0, despesa_total = 300, saldo_atual = - 300, meta_economia = 0\<rparr>
     \<and> gzen_accounts (snd r3) 1 = Some \<lparr>acc_saldo_atual = 1000\<rparr>
     \<and> gzen_orcamento (snd r3) (7, 3, 2024) =
         Some \<lparr>receita_total = 0, despesa_total = 0, saldo_atual = - 300, meta_economia = 0\<rparr>)"
  by code_simp

section \<open>Round trip of create and delete\<close>

text \<open>
  C5. Account \<open>a\<close> holds 1000. Creating a confirmed expense of 200 against \<open>a\<close> that is
  not an invoice payment succeeds, leaves 800 on \<open>a\<close> and raises the expense total of
  the expense's period by 200; deleting that expense succeeds, puts 1000 back on \<open>a\<close>
  and brings the expense total of the period back to what it was.
\<close>

theorem create_delete_round_trip:
  assumes acc: "gzen_accounts s a = Some \<lparr>acc_saldo_atual = 1000\<rparr>"
    and dd: "dd_account_id dd = a" "dd_valor dd = 200" "dd_status dd = Confirmada"
            "dd_eh_pagamento_fatura dd = False"
  shows "\<exists>d s1 s2.
           despesa_create tza None u dd s = (Inr d, s1)
         \<and> despesa_delete tza None (d_id d) u s1 = (Inr (), s2)
         \<and> gzen_accounts s1 a = Some \<lparr>acc_saldo_atual = 800\<rparr>
         \<and> despesa_total_em s1 (u, periodo tza (data_despesa d)) =
             despesa_total_em s (u, periodo tza (data_despesa d)) + 200
         \<and> gzen_accounts s2 a = Some \<lparr>acc_saldo_atual = 1000\<rparr>
         \<and> despesa_total_em s2 (u, periodo tza (data_despesa d)) =
             despesa_total_em s (u, periodo tza (data_despesa d))"
proof -
  define d where "d =
     \<lparr>d_id = novo_id (map d_id (gzen_despesas s)), d_user_id = u,
      d_account_id = dd_account_id dd, d_valor = dd_valor dd,
      data_despesa = toISOString_date (parse_sao_paulo (dd_data_despesa dd)),
      d_status = dd_status dd, d_ativo = True,
      eh_pagamento_fatura = dd_eh_pagamento_fatura dd,
      cartao_origem_id = dd_cartao_origem_id dd\<rparr>"
  define s0 where "s0 = s\<lparr>gzen_despesas := gzen_despesas s @ [d]\<rparr>"
  define s1 where "s1 = processarDespesa tza d u s0"
  define s1d where "s1d = s1\<lparr>gzen_despesas :=
      map (\<lambda>r. if d_id r = d_id d \<and> d_user_id r = u then r\<lparr>d_ativo := False\<rparr> else r)
        (gzen_despesas s1)\<rparr>"
  define s2 where "s2 = reverterDespesa tza d u s1d"
  define k where "k = (u, periodo tza (data_despesa d))"
  have d_simps: "d_id d = novo_id (map d_id (gzen_despesas s))" "d_user_id d = u"
    "d_account_id d = a" "d_valor d = 200" "d_status d = Confirmada"
    "eh_pagamento_fatura d = False"
    by (simp_all add: d_def dd)
  have create: "despesa_create tza None u dd s = (Inr d, s1)"
    by (simp add: despesa_create_def Let_def s1_def s0_def d_def dd)
  have "despesa_findById (d_id d) u s0 = Some d"
    unfolding s0_def by (rule despesa_findById_append) (simp_all add: d_simps)
  then have found: "despesa_findById (d_id d) u s1 = Some d"
    by (simp add: s1_def despesa_findById_cong [of "processarDespesa tza d u s0" s0])
  have delete: "despesa_delete tza None (d_id d) u s1 = (Inr (), s2)"
    using despesa_delete_found [OF found, of tza] by (simp add: d_simps(5) s2_def s1d_def)
  have acc0: "gzen_accounts s0 a = Some \<lparr>acc_saldo_atual = 1000\<rparr>"
    by (simp add: s0_def acc)
  have acc1: "gzen_accounts s1 a = Some \<lparr>acc_saldo_atual = 800\<rparr>"
    using saldo_subtract [OF acc0, of 200] by (simp add: s1_def d_simps)
  have "gzen_accounts s1d a = Some \<lparr>acc_saldo_atual = 800\<rparr>"
    by (simp add: s1d_def acc1)
  then have acc2: "gzen_accounts s2 a = Some \<lparr>acc_saldo_atual = 1000\<rparr>"
    using saldo_add [of s1d a 800 200] by (simp add: s2_def d_simps)
  have orc1: "gzen_orcamento s1 =
      gzen_orcamento (updateOrcamento tza u (data_despesa d) 200 TipoDespesa Add s)"
    unfolding s1_def processarDespesa_orcamento d_simps
    by (rule updateOrcamento_orcamento_cong) (simp add: s0_def)
  have tot1: "despesa_total_em s1 k = despesa_total_em s k + 200"
    unfolding k_def despesa_total_em_cong [OF orc1] by (rule despesa_total_add)
  have ex1: "gzen_orcamento s1d k \<noteq> None"
    using updateOrcamento_row_exists [of tza u "data_despesa d" 200 TipoDespesa Add s]
    by (simp add: s1d_def orc1 k_def)
  have "despesa_total_em s2 k =
      despesa_total_em (updateOrcamento tza u (data_despesa d) 200 TipoDespesa Subtract s1d) k"
    by (rule despesa_total_em_cong) (simp add: s2_def reverterDespesa_orcamento d_simps)
  also have "\<dots> = despesa_total_em s1d k - 200"
    using ex1 unfolding k_def by (rule despesa_total_subtract)
  also have "despesa_total_em s1d k = despesa_total_em s1 k"
    by (rule despesa_total_em_cong) (simp add: s1d_def)
  finally have tot2: "despesa_total_em s2 k = despesa_total_em s k"
    using tot1 by simp
  show ?thesis
    using create delete acc1 acc2 tot1 tot2 unfolding k_def by blast
qed

theorem create_delete_round_trip_witness:
  "gzen_accounts db_exemplo 1 = Some \<lparr>acc_saldo_atual = 1000\<rparr>
   \<and> dd_account_id despesa_200 = 1 \<and> dd_valor despesa_200 = 200
   \<and> dd_status despesa_200 = Confirmada \<and> dd_eh_pagamento_fatura despesa_200 = False
   \<and> (\<exists>d s1 s2.
           despesa_create 0 None 7 despesa_200 db_exemplo = (Inr d, s1)
         \<and> despesa_delete 0 None (d_id d) 7 s1 = (Inr (), s2)
         \<and> gzen_accounts s1 1 = Some \<lparr>acc_saldo_atual = 800\<rparr>
         \<and> despesa_total_em s1 (7, periodo 0 (data_despesa d)) =
             despesa_total_em db_exemplo (7, periodo 0 (data_despesa d)) + 200
         \<and> gzen_accounts s2 1 = Some \<lparr>acc_saldo_atual = 1000\<rparr>
         \<and> despesa_total_em s2 (7, periodo 0 (data_despesa d)) =
             despesa_total_em db_exemplo (7, periodo 0 (data_despesa d)))"
proof -
  have h1: "gzen_accounts db_exemplo 1 = Some \<lparr>acc_saldo_atual = 1000\<rparr>"
    by (simp add: db_exemplo_def)
  have h2: "dd_account_id despesa_200 = 1" "dd_valor despesa_200 = 200"
    "dd_status despesa_200 = Confirmada" "dd_eh_pagamento_fatura despesa_200 = False"
    by (simp_all add: despesa_200_def)
  show ?thesis
    using h1 h2 create_delete_round_trip [OF h1 h2, of 0 7] by simp
qed

section \<open>A confirmed expense that stays confirmed\<close>

lemma despesa_update_same_account:
  assumes found: "despesa_findById i u s = Some cur"
    and conf: "d_status cur = Confirmada"
    and st: "case du_status upd of None \<Rightarrow> True | Some x \<Rightarrow> x = Confirmada"
    and same: "du_account_id upd = None"
    and val: "du_valor upd = Some v"
    and acc: "gzen_accounts s (d_account_id cur) = Some \<lparr>acc_saldo_atual = b\<rparr>"
  shows "sucesso (fst (despesa_update tza None i u upd s))
       \<and> gzen_accounts (snd (despesa_update tza None i u upd s)) (d_account_id cur) =
           Some \<lparr>acc_saldo_atual = b + d_valor cur - v\<rparr>"
proof -
  obtain new s1 where
    res: "despesa_update tza None i u upd s =
        (Inr new, despesa_handleBalanceUpdates tza cur new u s1)"
    and acc1: "gzen_accounts s1 = gzen_accounts s"
    and na: "d_account_id new = (case du_account_id upd of None \<Rightarrow> d_account_id cur | Some x \<Rightarrow> x)"
    and nv: "d_valor new = (case du_valor upd of None \<Rightarrow> d_valor cur | Some x \<Rightarrow> x)"
    and ns: "d_status new = (case du_status upd of None \<Rightarrow> d_status cur | Some x \<Rightarrow> x)"
    using despesa_update_found [OF found, of tza upd] by blast
  have new: "d_account_id new = d_account_id cur" "d_valor new = v" "d_status new = Confirmada"
    using na nv ns same val st conf by (simp_all split: option.splits)
  have h: "despesa_handleBalanceUpdates tza cur new u s1 =
      processarDespesa tza new u (reverterDespesa tza cur u s1)"
    by (rule despesa_handle_cases(3) [OF conf new(3)])
  have "gzen_accounts s1 (d_account_id cur) = Some \<lparr>acc_saldo_atual = b\<rparr>"
    by (simp add: acc1 acc)
  then have "gzen_accounts (reverterDespesa tza cur u s1) (d_account_id cur) =
      Some \<lparr>acc_saldo_atual = b + d_valor cur\<rparr>"
    by (rule reverterDespesa_saldo)
  then have "gzen_accounts (reverterDespesa tza cur u s1) (d_account_id new) =
      Some \<lparr>acc_saldo_atual = b + d_valor cur\<rparr>"
    by (simp add: new)
  then have "gzen_accounts (processarDespesa tza new u (reverterDespesa tza cur u s1))
      (d_account_id new) = Some \<lparr>acc_saldo_atual = b + d_valor cur - d_valor new\<rparr>"
    by (rule processarDespesa_saldo)
  then show ?thesis
    by (simp add: res h new sucesso_def)
qed

lemma despesa_update_other_account:
  assumes found: "despesa_findById i u s = Some cur"
    and conf: "d_status cur = Confirmada"
    and st: "case du_status upd of None \<Rightarrow> True | Some x \<Rightarrow> x = Confirmada"
    and other: "du_account_id upd = Some a2" "a2 \<noteq> d_account_id cur"
    and val: "du_valor upd = Some v"
    and acc: "gzen_accounts s (d_account_id cur) = Some \<lparr>acc_saldo_atual = b1\<rparr>"
             "gzen_accounts s a2 = Some \<lparr>acc_saldo_atual = b2\<rparr>"
  shows "sucesso (fst (despesa_update tza None i u upd s))
       \<and> gzen_accounts (snd (despesa_update tza None i u upd s)) (d_account_id cur) =
           Some \<lparr>acc_saldo_atual = b1 + d_valor cur\<rparr>
       \<and> gzen_accounts (snd (despesa_update tza None i u upd s)) a2 =
           Some \<lparr>acc_saldo_atual = b2 - v\<rparr>"
proof -
  obtain new s1 where
    res: "despesa_update tza None i u upd s =
        (Inr new, despesa_handleBalanceUpdates tza cur new u s1)"
    and acc1: "gzen_accounts s1 = gzen_accounts s"
    and na: "d_account_id new = (case du_account_id upd of None \<Rightarrow> d_account_id cur | Some x \<Rightarrow> x)"
    and nv: "d_valor new = (case du_valor upd of None \<Rightarrow> d_valor cur | Some x \<Rightarrow> x)"
    and ns: "d_status new = (case du_status upd of None \<Rightarrow> d_status cur | Some x \<Rightarrow> x)"
    using despesa_update_found [OF found, of tza upd] by blast
  have new: "d_account_id new = a2" "d_valor new = v" "d_status new = Confirmada"
    using na nv ns other val st conf by (simp_all split: option.splits)
  define X where "X = reverterDespesa tza cur u s1"
  have h: "despesa_handleBalanceUpdates tza cur new u s1 = processarDespesa tza new u X"
    unfolding X_def by (rule despesa_handle_cases(3) [OF conf new(3)])
  have "gzen_accounts s1 (d_account_id cur) = Some \<lparr>acc_saldo_atual = b1\<rparr>"
    by (simp add: acc1 acc)
  then have x1: "gzen_accounts X (d_account_id cur) = Some \<lparr>acc_saldo_atual = b1 + d_valor cur\<rparr>"
    unfolding X_def by (rule reverterDespesa_saldo)
  have "gzen_accounts X a2 = gzen_accounts s1 a2"
    unfolding X_def using other(2) by (rule reverterDespesa_saldo_other)
  then have x2: "gzen_accounts X (d_account_id new) = Some \<lparr>acc_saldo_atual = b2\<rparr>"
    by (simp add: acc1 acc new)
  have y2: "gzen_accounts (processarDespesa tza new u X) (d_account_id new) =
      Some \<lparr>acc_saldo_atual = b2 - d_valor new\<rparr>"
    using x2 by (rule processarDespesa_saldo)
  have "d_account_id cur \<noteq> d_account_id new"
    using other(2) by (simp add: new)
  then have y1: "gzen_accounts (processarDespesa tza new u X) (d_account_id cur) =
      gzen_accounts X (d_account_id cur)"
    by (rule processarDespesa_saldo_other)
  show ?thesis
    using y1 y2 x1 by (simp add: res h new sucesso_def)
qed

text \<open>
  C6. A confirmed expense that is updated and stays confirmed should have its old effect
  reversed and its new effect applied, as two steps. User 7 has a confirmed income of
  500 and a confirmed expense of 200 on account 1, both of 15 March 2024 (account 1300;
  March: income 500, expense 200, balance 300), and moves the expense to 10 April. The
  account is credited 200 and debited 200, and April receives the expense (income 0,
  expense 200, balance \<open>-200\<close>); March ends with income 500, expense 0 and balance 300:
  the effect of the old row on the balance of March is not reversed, because the total
  of March comes back to 0 and \<^verbatim>\<open>updateOrcamento\<close> reads it through
  \<^verbatim>\<open>updates.despesa_total || orcamento.despesa_total\<close>.
\<close>

theorem date_change_leaves_old_period_unreversed:
  "(let s1 = snd (receita_create 0 None 7 receita_500 db_exemplo);
        s2 = snd (despesa_create 0 None 7 despesa_200 s1);
        r3 = despesa_update 0 None 1 7
               (despesa_nova_data \<lparr>dt_ano = 2024, dt_mes = 4, dt_dia = 10\<rparr>) s2
    in gzen_accounts s2 1 = Some \<lparr>acc_saldo_atual = 1300\<rparr>
     \<and> gzen_orcamento s2 (7, 3, 2024) =
         Some \<lparr>receita_total = 500, despesa_total = 200, saldo_atual = 300, meta_economia = 0\<rparr>
     \<and> gzen_orcamento s2 (7, 4, 2024) = None
     \<and> sucesso (fst r3)
     \<and> gzen_accounts (snd r3) 1 = Some \<lparr>acc_saldo_atual = 1300\<rparr>
     \<and> gzen_orcamento (snd r3) (7, 3, 2024) =
         Some \<lparr>receita_total = 500, despesa_total = 0, saldo_atual = 300, meta_economia = 0\<rparr>
     \<and> gzen_orcamento (snd r3) (7, 4, 2024) =
         Some \<lparr>receita_total = 0, despesa_total = 200, saldo_atual = - 200, meta_economia = 0\<rparr>)"
  by code_simp

section \<open>A balance step on a missing account\<close>

lemma despesa_create_accounts:
  "gzen_accounts (snd (despesa_create tza None u dd s)) =
     (if dd_status dd = Confirmada
      then gzen_accounts (updateAccountBalance (dd_account_id dd) (dd_valor dd) Subtract s)
      else gzen_accounts s)"
  by (simp add: despesa_create_def Let_def updateAccountBalance_def split: option.splits)

lemma receita_create_accounts:
  "gzen_accounts (snd (receita_create tza None u rd s)) =
     (if rd_status rd = Confirmada
      then gzen_accounts (updateAccountBalance (rd_account_id rd) (rd_valor rd) Add s)
      else gzen_accounts s)"
  by (simp add: receita_create_def Let_def updateAccountBalance_def split: option.splits)

lemma create_sucesso:
  "sucesso (fst (despesa_create tza None u dd s))"
  "sucesso (fst (receita_create tza None u rd s))"
  by (simp_all add: despesa_create_def receita_create_def Let_def sucesso_def)

lemma despesa_update_missing:
  assumes found: "despesa_findById i u s = Some old"
    and a1: "gzen_accounts s (d_account_id old) = None"
    and a2: "case du_account_id upd of None \<Rightarrow> True | Some x \<Rightarrow> gzen_accounts s x = None"
  shows "sucesso (fst (despesa_update tza None i u upd s))
       \<and> gzen_accounts (snd (despesa_update tza None i u upd s)) = gzen_accounts s"
proof -
  obtain new s1 where
    res: "despesa_update tza None i u upd s =
        (Inr new, despesa_handleBalanceUpdates tza old new u s1)"
    and acc: "gzen_accounts s1 = gzen_accounts s"
    and na: "d_account_id new = (case du_account_id upd of None \<Rightarrow> d_account_id old | Some v \<Rightarrow> v)"
    using despesa_update_found [OF found, of tza upd] by blast
  have "gzen_accounts s (d_account_id new) = None"
    using a1 a2 na by (simp split: option.splits)
  then have "gzen_accounts (despesa_handleBalanceUpdates tza old new u s1) = gzen_accounts s1"
    using a1 acc by (intro despesa_handle_accounts_missing) simp_all
  then show ?thesis by (simp add: res acc sucesso_def)
qed

lemma receita_update_missing:
  assumes found: "receita_findById i u s = Some old"
    and a1: "gzen_accounts s (r_account_id old) = None"
    and a2: "case ru_account_id upd of None \<Rightarrow> True | Some x \<Rightarrow> gzen_accounts s x = None"
  shows "sucesso (fst (receita_update tza None i u upd s))
       \<and> gzen_accounts (snd (receita_update tza None i u upd s)) = gzen_accounts s"
proof -
  obtain new s1 where
    res: "receita_update tza None i u upd s =
        (Inr new, receita_handleBalanceUpdates tza old new u s1)"
    and acc: "gzen_accounts s1 = gzen_accounts s"
    and na: "r_account_id new = (case ru_account_id upd of None \<Rightarrow> r_account_id old | Some v \<Rightarrow> v)"
    using receita_update_found [OF found, of tza upd] by blast
  have "gzen_accounts s (r_account_id new) = None"
    using a1 a2 na by (simp split: option.splits)
  then have "gzen_accounts (receita_handleBalanceUpdates tza old new u s1) = gzen_accounts s1"
    using a1 acc by (intro receita_handle_accounts_missing) simp_all
  then show ?thesis by (simp add: res acc sucesso_def)
qed

lemma despesa_delete_missing:
  assumes found: "despesa_findById i u s = Some old"
    and a1: "gzen_accounts s (d_account_id old) = None"
  shows "fst (despesa_delete tza None i u s) = Inr ()
       \<and> gzen_accounts (snd (despesa_delete tza None i u s)) = gzen_accounts s"
  using a1 by (simp add: despesa_delete_found [OF found] updateAccountBalance_def)

lemma receita_delete_missing:
  assumes found: "receita_findById i u s = Some old"
    and a1: "gzen_accounts s (r_account_id old) = None"
  shows "fst (receita_delete tza None i u s) = Inr ()
       \<and> gzen_accounts (snd (receita_delete tza None i u s)) = gzen_accounts s"
  using a1 by (simp add: receita_delete_found [OF found] updateAccountBalance_def)

text \<open>
  C7. When the account of a balance step cannot be found, \<^verbatim>\<open>updateAccountBalance\<close>
  leaves the store as it is and raises nothing: \<^verbatim>\<open>create\<close>, \<^verbatim>\<open>update\<close> and \<^verbatim>\<open>delete\<close>
  of an expense or an income whose accounts are missing still return success (given
  that the primary write succeeds), and the account table is unchanged.
\<close>

theorem missing_account_is_silent_noop:
  "(gzen_accounts s a = None \<longrightarrow> updateAccountBalance a valor operation s = s)
   \<and> (gzen_accounts s (dd_account_id dd) = None \<longrightarrow>
        sucesso (fst (despesa_create tza None u dd s))
        \<and> gzen_accounts (snd (despesa_create tza None u dd s)) = gzen_accounts s)
   \<and> (despesa_findById i u s = Some old \<and> gzen_accounts s (d_account_id old) = None
        \<and> (case du_account_id upd of None \<Rightarrow> True | Some x \<Rightarrow> gzen_accounts s x = None) \<longrightarrow>
        sucesso (fst (despesa_update tza None i u upd s))
        \<and> gzen_accounts (snd (despesa_update tza None i u upd s)) = gzen_accounts s)
   \<and> (despesa_findById i u s = Some old \<and> gzen_accounts s (d_account_id old) = None \<longrightarrow>
        fst (despesa_delete tza None i u s) = Inr ()
        \<and> gzen_accounts (snd (despesa_delete tza None i u s)) = gzen_accounts s)
   \<and> (gzen_accounts s (rd_account_id rd) = None \<longrightarrow>
        sucesso (fst (receita_create tza None u rd s))
        \<and> gzen_accounts (snd (receita_create tza None u rd s)) = gzen_accounts s)
   \<and> (receita_findById j u s = Some rold \<and> gzen_accounts s (r_account_id rold) = None
        \<and> (case ru_account_id rupd of None \<Rightarrow> True | Some x \<Rightarrow> gzen_accounts s x = None) \<longrightarrow>
        sucesso (fst (receita_update tza None j u rupd s))
        \<and> gzen_accounts (snd (receita_update tza None j u rupd s)) = gzen_accounts s)
   \<and> (receita_findById j u s = Some rold \<and> gzen_accounts s (r_account_id rold) = None \<longrightarrow>
        fst (receita_delete tza None j u s) = Inr ()
        \<and> gzen_accounts (snd (receita_delete tza None j u s)) = gzen_accounts s)"
proof (intro conjI impI)
  assume "gzen_accounts s a = None"
  then show "updateAccountBalance a valor operation s = s"
    by (rule updateAccountBalance_missing)
next
  assume h: "gzen_accounts s (dd_account_id dd) = None"
  show "sucesso (fst (despesa_create tza None u dd s))" by (rule create_sucesso)
  show "gzen_accounts (snd (despesa_create tza None u dd s)) = gzen_accounts s"
    using h by (simp add: despesa_create_accounts accounts_missing)
next
  assume h: "despesa_findById i u s = Some old \<and> gzen_accounts s (d_account_id old) = None
        \<and> (case du_account_id upd of None \<Rightarrow> True | Some x \<Rightarrow> gzen_accounts s x = None)"
  show "sucesso (fst (despesa_update tza None i u upd s))"
    using h despesa_update_missing [of i u s old upd tza] by simp
  show "gzen_accounts (snd (despesa_update tza None i u upd s)) = gzen_accounts s"
    using h despesa_update_missing [of i u s old upd tza] by simp
next
  assume h: "despesa_findById i u s = Some old \<and> gzen_accounts s (d_account_id old) = None"
  show "fst (despesa_delete tza None i u s) = Inr ()"
    using h despesa_delete_missing [of i u s old tza] by simp
  show "gzen_accounts (snd (despesa_delete tza None i u s)) = gzen_accounts s"
    using h despesa_delete_missing [of i u s old tza] by simp
next
  assume h: "gzen_accounts s (rd_account_id rd) = None"
  show "sucesso (fst (receita_create tza None u rd s))" by (rule create_sucesso)
  show "gzen_accounts (snd (receita_create tza None u rd s)) = gzen_accounts s"
    using h by (simp add: receita_create_accounts accounts_missing)
next
  assume h: "receita_findById j u s = Some rold \<and> gzen_accounts s (r_account_id rold) = None
        \<and> (case ru_account_id rupd of None \<Rightarrow> True | Some x \<Rightarrow> gzen_accounts s x = None)"
  show "sucesso (fst (receita_update tza None j u rupd s))"
    using h receita_update_missing [of j u s rold rupd tza] by simp
  show "gzen_accounts (snd (receita_update tza None j u rupd s)) = gzen_accounts s"
    using h receita_update_missing [of j u s rold rupd tza] by simp
next
  assume h: "receita_findById j u s = Some rold \<and> gzen_accounts s (r_account_id rold) = None"
  show "fst (receita_delete tza None j u s) = Inr ()"
    using h receita_delete_missing [of j u s rold tza] by simp
  show "gzen_accounts (snd (receita_delete tza None j u s)) = gzen_accounts s"
    using h receita_delete_missing [of j u s rold tza] by simp
qed

theorem missing_account_is_silent_noop_witness:
  "gzen_accounts db_orfas 9 = None
   \<and> despesa_findById 1 7 db_orfas = Some despesa_orfa
   \<and> receita_findById 1 7 db_orfas = Some receita_orfa
   \<and> updateAccountBalance 9 50 Subtract db_orfas = db_orfas
   \<and> sucesso (fst (despesa_create 0 None 7 despesa_data_orfa db_orfas))
   \<and> gzen_accounts (snd (despesa_create 0 None 7 despesa_data_orfa db_orfas)) =
       gzen_accounts db_orfas
   \<and> sucesso (fst (despesa_update 0 None 1 7 (despesa_novo_valor 80) db_orfas))
   \<and> gzen_accounts (snd (despesa_update 0 None 1 7 (despesa_novo_valor 80) db_orfas)) =
       gzen_accounts db_orfas
   \<and> fst (despesa_delete 0 None 1 7 db_orfas) = Inr ()
   \<and> gzen_accounts (snd (despesa_delete 0 None 1 7 db_orfas)) = gzen_accounts db_orfas
   \<and> sucesso (fst (receita_create 0 None 7 receita_data_orfa db_orfas))
   \<and> gzen_accounts (snd (receita_create 0 None 7 receita_data_orfa db_orfas)) =
       gzen_accounts db_orfas
   \<and> sucesso (fst (receita_update 0 None 1 7 (receita_novo_valor 90) db_orfas))
   \<and> gzen_accounts (snd (receita_update 0 None 1 7 (receita_novo_valor 90) db_orfas)) =
       gzen_accounts db_orfas
   \<and> fst (receita_delete 0 None 1 7 db_orfas) = Inr ()
   \<and> gzen_accounts (snd (receita_delete 0 None 1 7 db_orfas)) = gzen_accounts db_orfas"
proof -
  have h0: "gzen_accounts db_orfas 9 = None" by (simp add: db_orfas_def)
  have h1: "despesa_findById 1 7 db_orfas = Some despesa_orfa"
    by (simp add: despesa_findById_def single_def db_orfas_def despesa_orfa_def)
  have h2: "receita_findById 1 7 db_orfas = Some receita_orfa"
    by (simp add: receita_findById_def single_def db_orfas_def receita_orfa_def)
  have f: "dd_account_id despesa_data_orfa = 9" "rd_account_id receita_data_orfa = 9"
    "d_account_id despesa_orfa = 9" "r_account_id receita_orfa = 9"
    "du_account_id (despesa_novo_valor 80) = None" "ru_account_id (receita_novo_valor 90) = None"
    by (simp_all add: despesa_data_orfa_def receita_data_orfa_def despesa_orfa_def
        receita_orfa_def despesa_novo_valor_def receita_novo_valor_def)
  show ?thesis
    using h0 h1 h2
      missing_account_is_silent_noop [of db_orfas 9 50 Subtract despesa_data_orfa 0 7 1
        despesa_orfa "despesa_novo_valor 80" receita_data_orfa 1 receita_orfa
        "receita_novo_valor 90"]
    by (simp add: f)
qed

section \<open>Failure of the primary write\<close>

text \<open>
  C8. When the store answers the primary write (the insert of \<^verbatim>\<open>create\<close>, the update of
  \<^verbatim>\<open>update\<close>, the \<^verbatim>\<open>ativo: false\<close> write of \<^verbatim>\<open>delete\<close>) with an error, the operation
  returns an error and the store is exactly what it was: no account balance, card limit
  or budget total is touched. This holds for expenses and for incomes.
\<close>

theorem primary_write_failure_has_no_side_effects:
  "despesa_create tza (Some e) userId despesaData s = (Inl e, s)
   \<and> \<not> sucesso (fst (despesa_update tza (Some e) despesaId userId updateData s))
   \<and> snd (despesa_update tza (Some e) despesaId userId updateData s) = s
   \<and> \<not> sucesso (fst (despesa_delete tza (Some e) despesaId userId s))
   \<and> snd (despesa_delete tza (Some e) despesaId userId s) = s
   \<and> receita_create tza (Some e) userId receitaData s = (Inl e, s)
   \<and> \<not> sucesso (fst (receita_update tza (Some e) receitaId userId rupdateData s))
   \<and> snd (receita_update tza (Some e) receitaId userId rupdateData s) = s
   \<and> \<not> sucesso (fst (receita_delete tza (Some e) receitaId userId s))
   \<and> snd (receita_delete tza (Some e) receitaId userId s) = s"
  by (simp add: despesa_create_def despesa_update_def despesa_delete_def sucesso_def
      receita_create_def receita_update_def receita_delete_def Let_def split: option.splits)

section \<open>Deleting a deleted transaction\<close>

text \<open>
  C10. \<^verbatim>\<open>findById\<close> does not look at \<^verbatim>\<open>ativo\<close>, so a second \<^verbatim>\<open>delete\<close> of a confirmed
  transaction finds the row again, returns success and reverts once more: the account
  balance and the total of the period move by the amount a second time. The balance of
  the budget row does not move by the same amount each time. With a confirmed income of
  500 and a confirmed expense of 200 in March 2024 (income 500, expense 200, balance
  300), deleting the expense twice takes the balance of the row to 300 and then to 700,
  and deleting the income twice takes it to 300 and then to \<open>-700\<close>: the first delete
  brings the total to 0, which \<^verbatim>\<open>updateOrcamento\<close> reads as missing, so the balance
  stays; the second delete then moves it by twice the amount.
\<close>

theorem second_delete_moves_saldo_atual_differently:
  "(let s1 = snd (receita_create 0 None 7 receita_500 db_exemplo);
        s2 = snd (despesa_create 0 None 7 despesa_200 s1);
        d1 = despesa_delete 0 None 1 7 s2;
        d2 = despesa_delete 0 None 1 7 (snd d1);
        r1 = receita_delete 0 None 1 7 s2;
        r2 = receita_delete 0 None 1 7 (snd r1)
    in gzen_accounts s2 1 = Some \<lparr>acc_saldo_atual = 1300\<rparr>
     \<and> gzen_orcamento s2 (7, 3, 2024) =
         Some \<lparr>receita_total = 500, despesa_total = 200, saldo_atual = 300, meta_economia = 0\<rparr>
     \<and> sucesso (fst d1) \<and> sucesso (fst d2)
     \<and> map d_ativo (gzen_despesas (snd d1)) = [False]
     \<and> gzen_accounts (snd d1) 1 = Some \<lparr>acc_saldo_atual = 1500\<rparr>
     \<and> gzen_accounts (snd d2) 1 = Some \<lparr>acc_saldo_atual = 1700\<rparr>
     \<and> gzen_orcamento (snd d1) (7, 3, 2024) =
         Some \<lparr>receita_total = 500, despesa_total = 0, saldo_atual = 300, meta_economia = 0\<rparr>
     \<and> gzen_orcamento (snd d2) (7, 3, 2024) =
         Some \<lparr>receita_total = 500, despesa_total = - 200, saldo_atual = 700, meta_economia = 0\<rparr>
     \<and> sucesso (fst r1) \<and> sucesso (fst r2)
     \<and> map r_ativo (gzen_receitas (snd r1)) = [False]
     \<and> gzen_accounts (snd r1) 1 = Some \<lparr>acc_saldo_atual = 800\<rparr>
     \<and> gzen_accounts (snd r2) 1 = Some \<lparr>acc_saldo_atual = 300\<rparr>
     \<and> gzen_orcamento (snd r1) (7, 3, 2024) =
         Some \<lparr>receita_total = 0, despesa_total = 200, saldo_atual = 300, meta_economia = 0\<rparr>
     \<and> gzen_orcamento (snd r2) (7, 3, 2024) =
         Some \<lparr>receita_total = - 500, despesa_total = 200, saldo_atual = - 700, meta_economia = 0\<rparr>)"
  by code_simp

end
